theory Spec2Isabelle
  imports Main "HOL-Library.Word" "HOL-Library.Sublist"
begin

unbundle bit_operations_syntax

section \<open>MAX17048 fuel gauge driver: data model\<close>

text \<open>
  The development embeds \<^verbatim>\<open>drivers/power/max17048_battery.c\<close>. C \<^verbatim>\<open>int\<close> values
  that the driver only copies or compares are HOL integers; every narrowing the source
  performs (\<^verbatim>\<open>uint8_t ret\<close>, \<^verbatim>\<open>u16 val\<close>, \<^verbatim>\<open>(uint16_t)soc\<close>,
  \<^verbatim>\<open>(int)hot_temp\<close>) is a conversion to a word of that width.
\<close>

type_synonym u8 = "8 word"
type_synonym u16 = "16 word"
type_synonym s32 = "32 word"
type_synonym s64 = "64 word"

subsection \<open>Register map and constants (lines 34-67)\<close>

text \<open>\<^verbatim>\<open>MAX17048_DELAY\<close> is \<^verbatim>\<open>10*HZ\<close> jiffies; it is counted in seconds here.\<close>

definition MAX17048_VCELL :: int where "MAX17048_VCELL = 0x02"
definition MAX17048_SOC :: int where "MAX17048_SOC = 0x04"
definition MAX17048_VER :: int where "MAX17048_VER = 0x08"
definition MAX17048_HIBRT :: int where "MAX17048_HIBRT = 0x0A"
definition MAX17048_CONFIG :: int where "MAX17048_CONFIG = 0x0C"
definition MAX17048_OCV :: int where "MAX17048_OCV = 0x0E"
definition MAX17048_VALRT :: int where "MAX17048_VALRT = 0x14"
definition MAX17048_VRESET :: int where "MAX17048_VRESET = 0x18"
definition MAX17048_STATUS :: int where "MAX17048_STATUS = 0x1A"
definition MAX17048_UNLOCK :: int where "MAX17048_UNLOCK = 0x3E"
definition MAX17048_TABLE :: int where "MAX17048_TABLE = 0x40"
definition MAX17048_RCOMPSEG1 :: int where "MAX17048_RCOMPSEG1 = 0x80"
definition MAX17048_RCOMPSEG2 :: int where "MAX17048_RCOMPSEG2 = 0x90"
definition MAX17048_UNLOCK_VALUE :: u16 where "MAX17048_UNLOCK_VALUE = 0x4a57"
definition MAX17048_DELAY :: int where "MAX17048_DELAY = 10"
definition MAX17048_BATTERY_FULL :: int where "MAX17048_BATTERY_FULL = 100"
definition MAX17048_BATTERY_LOW :: int where "MAX17048_BATTERY_LOW = 15"
definition MAX17048_BATTERY_HOT :: int where "MAX17048_BATTERY_HOT = 60 * 1000"
definition MAX17048_BATTERY_COLD :: int where "MAX17048_BATTERY_COLD = - 10 * 1000"
definition MAX17048_VERSION_NO_11 :: int where "MAX17048_VERSION_NO_11 = 0x11"
definition MAX17048_VERSION_NO_12 :: int where "MAX17048_VERSION_NO_12 = 0x12"

definition MAX17048_STATUS_RI :: u16 where "MAX17048_STATUS_RI = 0x0100"
definition MAX17048_STATUS_VH :: u16 where "MAX17048_STATUS_VH = 0x0200"
definition MAX17048_STATUS_VL :: u16 where "MAX17048_STATUS_VL = 0x0400"
definition MAX17048_STATUS_VR :: u16 where "MAX17048_STATUS_VR = 0x0800"
definition MAX17048_STATUS_HD :: u16 where "MAX17048_STATUS_HD = 0x1000"
definition MAX17048_STATUS_SC :: u16 where "MAX17048_STATUS_SC = 0x2000"
definition MAX17048_STATUS_ENVR :: u16 where "MAX17048_STATUS_ENVR = 0x4000"
definition MAX17048_CONFIG_ALRT :: u16 where "MAX17048_CONFIG_ALRT = 0x0020"

text \<open>Error numbers of the kernel's \<^verbatim>\<open>errno-base.h\<close>.\<close>

definition EIO :: int where "EIO = 5"
definition ENODEV :: int where "ENODEV = 19"

subsection \<open>Enumerations of the power-supply framework\<close>

text \<open>
  The fields \<^verbatim>\<open>status\<close>, \<^verbatim>\<open>health\<close> and \<^verbatim>\<open>capacity_level\<close> of the chip are
  C \<^verbatim>\<open>int\<close>s that only ever hold enumerators of \<^verbatim>\<open>linux/power_supply.h\<close>; the
  constructors follow the declaration order there, the first being the value 0 that a
  zeroed allocation holds.
\<close>

datatype power_supply_status =
  POWER_SUPPLY_STATUS_UNKNOWN
| POWER_SUPPLY_STATUS_CHARGING
| POWER_SUPPLY_STATUS_DISCHARGING
| POWER_SUPPLY_STATUS_NOT_CHARGING
| POWER_SUPPLY_STATUS_FULL

datatype power_supply_health =
  POWER_SUPPLY_HEALTH_UNKNOWN
| POWER_SUPPLY_HEALTH_GOOD
| POWER_SUPPLY_HEALTH_OVERHEAT
| POWER_SUPPLY_HEALTH_DEAD
| POWER_SUPPLY_HEALTH_OVERVOLTAGE
| POWER_SUPPLY_HEALTH_UNSPEC_FAILURE
| POWER_SUPPLY_HEALTH_COLD

datatype power_supply_capacity_level =
  POWER_SUPPLY_CAPACITY_LEVEL_UNKNOWN
| POWER_SUPPLY_CAPACITY_LEVEL_CRITICAL
| POWER_SUPPLY_CAPACITY_LEVEL_LOW
| POWER_SUPPLY_CAPACITY_LEVEL_NORMAL
| POWER_SUPPLY_CAPACITY_LEVEL_HIGH
| POWER_SUPPLY_CAPACITY_LEVEL_FULL

subsection \<open>Platform data\<close>

text \<open>
  Modelled from the spec: \<^verbatim>\<open>struct max17048_battery_model\<close> and
  \<^verbatim>\<open>struct max17048_platform_data\<close> are declared in \<^verbatim>\<open>linux/max17048_battery.h\<close>,
  which is not part of the sources at hand. The specification's data model lists the
  tunables as integers and \<^verbatim>\<open>rcompSegmentWord\<close>, \<^verbatim>\<open>ocvTestValue\<close> as 16-bit values;
  the driver passes \<^verbatim>\<open>valert\<close>, \<^verbatim>\<open>vreset\<close> and \<^verbatim>\<open>hibernate\<close> as register words.
  Integer tunables are given the width of a C \<^verbatim>\<open>int\<close> (read with \<open>sint\<close>), which
  covers every narrower declaration: the driver uses them in \<^verbatim>\<open>int\<close> arithmetic only.
  The two policy tables are arrays with a separate entry count, as the driver indexes
  them.
\<close>

record max17048_battery_model =
  rcomp :: s32
  soccheck_A :: s32
  soccheck_B :: s32
  bits :: s32
  alert_threshold :: s32
  one_percent_alerts :: s32
  rcomp_seg :: u16
  hibernate :: u16
  vreset :: u16
  valert :: u16
  ocvtest :: u16
  t_co_hot :: s32
  t_co_cold :: s32
  data_tbl :: "u8 list"

text \<open>
  The two callbacks are function pointers that may be null. A present
  \<^verbatim>\<open>set_current_threshold\<close> is the function computing its \<^verbatim>\<open>s32\<close> result from the
  threshold and the \<^verbatim>\<open>min_cpu\<close> hint; \<^verbatim>\<open>sysedp_throttle\<close> returns nothing, so only
  its presence is recorded.
\<close>

record max17048_platform_data =
  model_data :: max17048_battery_model
  set_current_threshold :: "(int \<Rightarrow> int \<Rightarrow> int) option"
  current_normal :: int
  current_threshold_num :: int
  current_threshold_soc :: "int list"
  pdata_current_threshold :: "int list"
  sysedp_throttle :: bool
  sysedp_throttle_num :: int
  sysedp_throttle_soc :: "int list"
  sysedp_throttle_power :: "nat list"

subsection \<open>The bus and the device state\<close>

text \<open>
  The I2C transport is an external collaborator. Every SMBus transaction the driver
  issues, and every \<^verbatim>\<open>mdelay\<close>, is appended to a trace in the device state; the bus is
  any function that answers a transaction from the whole trace up to and including it
  (a negative errno, or the data read). No transaction on the bus means the trace is
  unchanged.
\<close>

datatype i2c_event =
  XWriteWord u8 u16
| XWriteBlock u8 "u8 list"
| XReadWord u8
| XDelay nat

type_synonym i2c_bus = "i2c_event list \<Rightarrow> int"

text \<open>
  \<^verbatim>\<open>struct max17048_chip\<close> (lines 71-99). \<open>trace\<close> stands for the \<^verbatim>\<open>client\<close>,
  \<open>changed\<close> counts the \<^verbatim>\<open>power_supply_changed\<close> notifications sent through
  \<^verbatim>\<open>battery\<close>, \<open>scheduled\<close> records the delays passed to
  \<^verbatim>\<open>schedule_delayed_work\<close>, \<open>threshold_calls\<close> and \<open>throttle_calls\<close> record the
  invocations of the two platform callbacks, and \<open>mutex\<close> is true while the mutex is
  held. \<^verbatim>\<open>long\<close> is 32 bits wide on the ARMv7 target of this kernel tree.
\<close>

record max17048_chip =
  pdata :: max17048_platform_data
  vcell :: int
  soc :: int
  status :: power_supply_status
  health :: power_supply_health
  capacity_level :: power_supply_capacity_level
  temperature :: s32
  current_threshold :: int
  internal_soc :: int
  lasttime_soc :: int
  lasttime_status :: power_supply_status
  lasttime_temperature :: s32
  lasttime_current_threshold :: int
  shutdown_complete :: int
  mutex :: bool
  trace :: "i2c_event list"
  changed :: nat
  scheduled :: "int list"
  threshold_calls :: "(int \<times> int) list"
  throttle_calls :: "nat list"

definition mutex_lock :: "max17048_chip \<Rightarrow> max17048_chip" where
  "mutex_lock chip = chip\<lparr>mutex := True\<rparr>"

definition mutex_unlock :: "max17048_chip \<Rightarrow> max17048_chip" where
  "mutex_unlock chip = chip\<lparr>mutex := False\<rparr>"

definition mdelay :: "nat \<Rightarrow> max17048_chip \<Rightarrow> max17048_chip" where
  "mdelay ms chip = chip\<lparr>trace := trace chip @ [XDelay ms]\<rparr>"

definition power_supply_changed :: "max17048_chip \<Rightarrow> max17048_chip" where
  "power_supply_changed chip = chip\<lparr>changed := Suc (changed chip)\<rparr>"

definition schedule_delayed_work :: "int \<Rightarrow> max17048_chip \<Rightarrow> max17048_chip" where
  "schedule_delayed_work d chip = chip\<lparr>scheduled := scheduled chip @ [d]\<rparr>"

definition i2c_transfer :: "i2c_bus \<Rightarrow> max17048_chip \<Rightarrow> i2c_event \<Rightarrow> int \<times> max17048_chip" where
  "i2c_transfer bus chip e =
     (let tr = trace chip @ [e] in (bus tr, chip\<lparr>trace := tr\<rparr>))"

definition i2c_smbus_write_word_data ::
  "i2c_bus \<Rightarrow> max17048_chip \<Rightarrow> u8 \<Rightarrow> u16 \<Rightarrow> int \<times> max17048_chip" where
  "i2c_smbus_write_word_data bus chip command v = i2c_transfer bus chip (XWriteWord command v)"

definition i2c_smbus_write_i2c_block_data ::
  "i2c_bus \<Rightarrow> max17048_chip \<Rightarrow> u8 \<Rightarrow> u8 \<Rightarrow> u8 list \<Rightarrow> int \<times> max17048_chip" where
  "i2c_smbus_write_i2c_block_data bus chip command len vs =
     i2c_transfer bus chip (XWriteBlock command (take (unat len) vs))"

definition i2c_smbus_read_word_data ::
  "i2c_bus \<Rightarrow> max17048_chip \<Rightarrow> u8 \<Rightarrow> int \<times> max17048_chip" where
  "i2c_smbus_read_word_data bus chip command = i2c_transfer bus chip (XReadWord command)"

definition swab16 :: "u16 \<Rightarrow> u16" where
  "swab16 v = push_bit 8 v OR drop_bit 8 v"

section \<open>Register transport (lines 102-171)\<close>

definition max17048_write_word ::
  "i2c_bus \<Rightarrow> max17048_chip \<Rightarrow> int \<Rightarrow> u16 \<Rightarrow> int \<times> max17048_chip" where
  "max17048_write_word bus chip0 reg v =
     (let chip = mutex_lock chip0 in
      if shutdown_complete chip \<noteq> 0 then (- ENODEV, mutex_unlock chip)
      else
        let (ret, chip) = i2c_smbus_write_word_data bus chip (word_of_int reg) (swab16 v)
        in (ret, mutex_unlock chip))"

definition max17048_write_block ::
  "i2c_bus \<Rightarrow> max17048_chip \<Rightarrow> u8 \<Rightarrow> u8 \<Rightarrow> u8 list \<Rightarrow> int \<times> max17048_chip" where
  "max17048_write_block bus chip0 command len vs =
     (let chip = mutex_lock chip0 in
      if shutdown_complete chip \<noteq> 0 then (- ENODEV, mutex_unlock chip)
      else
        let (ret, chip) = i2c_smbus_write_i2c_block_data bus chip command len vs
        in (ret, mutex_unlock chip))"

definition max17048_read_word ::
  "i2c_bus \<Rightarrow> max17048_chip \<Rightarrow> int \<Rightarrow> int \<times> max17048_chip" where
  "max17048_read_word bus chip0 reg =
     (let chip = mutex_lock chip0 in
      if shutdown_complete chip \<noteq> 0 then (- ENODEV, mutex_unlock chip)
      else
        let (ret, chip) = i2c_smbus_read_word_data bus chip (word_of_int reg) in
        if ret < 0 then (ret, mutex_unlock chip)
        else (uint (swab16 (word_of_int (ret AND 0x0000ffff))), mutex_unlock chip))"

section \<open>Global query entry points (lines 503-519, 704-718)\<close>

text \<open>
  \<^verbatim>\<open>max17048_data\<close> is the module-wide instance pointer: \<open>None\<close> is the null
  pointer. Each entry point returns its result and the instance as it leaves it.
\<close>

definition max17048_get_version :: "i2c_bus \<Rightarrow> max17048_chip \<Rightarrow> u16 \<times> max17048_chip" where
  "max17048_get_version bus chip =
     (let (r, chip) = max17048_read_word bus chip MAX17048_VER in (word_of_int r, chip))"

definition max17048_check_vcell :: "max17048_chip option \<Rightarrow> int \<times> max17048_chip option" where
  "max17048_check_vcell max17048_data =
     (case max17048_data of
        None \<Rightarrow> (- 1, None)
      | Some chip \<Rightarrow> (vcell chip, Some chip))"

definition max17048_check_soc :: "max17048_chip option \<Rightarrow> int \<times> max17048_chip option" where
  "max17048_check_soc max17048_data =
     (case max17048_data of
        None \<Rightarrow> (- 1, None)
      | Some chip \<Rightarrow> (internal_soc chip, Some chip))"

definition max17048_check_battery ::
  "i2c_bus \<Rightarrow> max17048_chip option \<Rightarrow> int \<times> max17048_chip option" where
  "max17048_check_battery bus max17048_data =
     (case max17048_data of
        None \<Rightarrow> (- ENODEV, None)
      | Some chip0 \<Rightarrow>
          let (version, chip) = max17048_get_version bus chip0 in
          if uint version \<noteq> MAX17048_VERSION_NO_11 \<and> uint version \<noteq> MAX17048_VERSION_NO_12
          then (- ENODEV, Some chip)
          else (0, Some chip))"

section \<open>State sampler (lines 239-362)\<close>

definition max17048_get_vcell :: "i2c_bus \<Rightarrow> max17048_chip \<Rightarrow> max17048_chip" where
  "max17048_get_vcell bus chip0 =
     (let (vc, chip) = max17048_read_word bus chip0 MAX17048_VCELL in
      if vc < 0 then chip
      else chip\<lparr>vcell := uint (word_of_int ((drop_bit 4 vc * 125) div 100) :: u16)\<rparr>)"

text \<open>
  \<^verbatim>\<open>max17048_get_soc\<close>: a failed read keeps the previous \<^verbatim>\<open>internal_soc\<close>; the
  derivation of the reported state below runs in either case.
\<close>

definition max17048_get_soc :: "i2c_bus \<Rightarrow> max17048_chip \<Rightarrow> max17048_chip" where
  "max17048_get_soc bus chip0 =
     (let mdata = model_data (pdata chip0);
          (soc_r, chip) = max17048_read_word bus chip0 MAX17048_SOC;
          chip = (if soc_r < 0 then chip
                  else if bits mdata = 18
                    then chip\<lparr>internal_soc := uint (drop_bit 8 (word_of_int soc_r :: u16))\<rparr>
                    else chip\<lparr>internal_soc := uint (drop_bit 9 (word_of_int soc_r :: u16))\<rparr>);
          chip = chip\<lparr>soc := internal_soc chip\<rparr>
      in
        if internal_soc chip \<ge> MAX17048_BATTERY_FULL then
          (let chip = (if status chip = POWER_SUPPLY_STATUS_CHARGING
                       then chip\<lparr>status := POWER_SUPPLY_STATUS_FULL\<rparr> else chip)
           in chip\<lparr>soc := MAX17048_BATTERY_FULL,
                    capacity_level := POWER_SUPPLY_CAPACITY_LEVEL_FULL,
                    health := POWER_SUPPLY_HEALTH_GOOD\<rparr>)
        else if soc chip < MAX17048_BATTERY_LOW then
          chip\<lparr>status := lasttime_status chip,
               health := POWER_SUPPLY_HEALTH_DEAD,
               capacity_level := POWER_SUPPLY_CAPACITY_LEVEL_CRITICAL\<rparr>
        else
          chip\<lparr>status := lasttime_status chip,
               health := POWER_SUPPLY_HEALTH_GOOD,
               capacity_level := POWER_SUPPLY_CAPACITY_LEVEL_NORMAL\<rparr>)"

text \<open>
  The \<^verbatim>\<open>for\<close> loop of \<^verbatim>\<open>max17048_set_current_threshold\<close> (lines 311-321), from index
  \<open>i\<close> on: it returns the chip and \<^verbatim>\<open>min_cpu\<close> as they are at the \<^verbatim>\<open>break\<close> or
  when the index reaches \<^verbatim>\<open>current_threshold_num\<close>. The arrays hold
  \<^verbatim>\<open>MAX17048_MAX_SOC_STEP\<close> entries and the entry count never exceeds that, so the
  properties below are stated for counts within the arrays.
\<close>

function current_threshold_loop :: "max17048_chip \<Rightarrow> int \<Rightarrow> nat \<Rightarrow> max17048_chip \<times> int" where
  "current_threshold_loop chip min_cpu i =
     (if int i < current_threshold_num (pdata chip) then
        if internal_soc chip \<le> current_threshold_soc (pdata chip) ! i
           \<and> pdata_current_threshold (pdata chip) ! i \<noteq> 0
        then (chip\<lparr>current_threshold := pdata_current_threshold (pdata chip) ! i\<rparr>, 1)
        else current_threshold_loop chip min_cpu (Suc i)
      else (chip, min_cpu))"
  by pat_completeness auto
termination
  by (relation "measure (\<lambda>(chip, m, i). nat (current_threshold_num (pdata chip)) - i)") auto

declare current_threshold_loop.simps [simp del]

definition max17048_set_current_threshold :: "max17048_chip \<Rightarrow> max17048_chip" where
  "max17048_set_current_threshold chip0 =
     (case set_current_threshold (pdata chip0) of
        None \<Rightarrow> chip0
      | Some callback \<Rightarrow>
          if current_threshold_num (pdata chip0) \<noteq> 0 \<and> current_normal (pdata chip0) \<noteq> 0 then
            (let chip = chip0\<lparr>current_threshold := current_normal (pdata chip0)\<rparr>;
                 (chip, min_cpu) = current_threshold_loop chip 2 0
             in
               if current_threshold chip \<noteq> lasttime_current_threshold chip then
                 (let ret = callback (current_threshold chip) min_cpu;
                      chip = chip\<lparr>threshold_calls :=
                                    threshold_calls chip @ [(current_threshold chip, min_cpu)]\<rparr>
                  in if ret < 0 then chip
                     else chip\<lparr>lasttime_current_threshold := current_threshold chip\<rparr>)
               else chip)
          else chip0)"

text \<open>The loop of \<^verbatim>\<open>max17048_sysedp_throttle\<close> (lines 352-359), returning \<^verbatim>\<open>power\<close>.\<close>

function sysedp_throttle_loop :: "max17048_chip \<Rightarrow> nat \<Rightarrow> nat \<Rightarrow> nat" where
  "sysedp_throttle_loop chip pwr i =
     (if int i < sysedp_throttle_num (pdata chip) then
        if internal_soc chip \<le> sysedp_throttle_soc (pdata chip) ! i
           \<and> sysedp_throttle_power (pdata chip) ! i \<noteq> 0
        then sysedp_throttle_power (pdata chip) ! i
        else sysedp_throttle_loop chip pwr (Suc i)
      else pwr)"
  by pat_completeness auto
termination
  by (relation "measure (\<lambda>(chip, p, i). nat (sysedp_throttle_num (pdata chip)) - i)") auto

declare sysedp_throttle_loop.simps [simp del]

definition max17048_sysedp_throttle :: "max17048_chip \<Rightarrow> max17048_chip" where
  "max17048_sysedp_throttle chip =
     (if sysedp_throttle (pdata chip) then
        chip\<lparr>throttle_calls := throttle_calls chip @ [sysedp_throttle_loop chip 4294967295 0]\<rparr>
      else chip)"

section \<open>Thermal compensation (lines 374-436)\<close>

text \<open>
  \<^verbatim>\<open>max17048_thz_get_temp\<close>: the thermal zone lookup is external; \<open>None\<close> stands for
  a zone that is not found or whose \<^verbatim>\<open>get_temp\<close> fails.
\<close>

definition max17048_thz_get_temp :: "s32 option \<Rightarrow> s32" where
  "max17048_thz_get_temp thz = (case thz of None \<Rightarrow> 20000 | Some t \<Rightarrow> t)"

text \<open>C division of signed integers truncates towards zero.\<close>

definition c_sdiv :: "int \<Rightarrow> int \<Rightarrow> int" where
  "c_sdiv a b = sgn a * sgn b * (\<bar>a\<bar> div \<bar>b\<bar>)"

definition div64_s64 :: "s64 \<Rightarrow> s64 \<Rightarrow> s64" where
  "div64_s64 dividend divisor = word_of_int (c_sdiv (sint dividend) (sint divisor))"

text \<open>
  Lines 395-416 of \<^verbatim>\<open>max17048_update_rcomp\<close>: the value of \<^verbatim>\<open>new_rcomp\<close> after the
  clamp. The arithmetic is that of the source: \<^verbatim>\<open>s64\<close> products and quotient, the
  quotient narrowed by \<^verbatim>\<open>(int)\<close>, the sum taken in \<^verbatim>\<open>int\<close>.
\<close>

definition new_rcomp_of :: "max17048_battery_model \<Rightarrow> s32 \<Rightarrow> s32" where
  "new_rcomp_of mdata temp =
     (let curr_temp = (scast temp :: s64);
          hot_temp = (scast (t_co_hot mdata) :: s64);
          cold_temp = (scast (t_co_cold mdata) :: s64);
          hot_temp = div64_s64 ((curr_temp - 20000) * hot_temp) 1000000;
          cold_temp = div64_s64 ((curr_temp - 20000) * cold_temp) 1000000;
          new_rcomp =
            (if sint temp > 20000 then rcomp mdata + (scast hot_temp :: s32)
             else if sint temp < 20000 then rcomp mdata + (scast cold_temp :: s32)
             else rcomp mdata)
      in if sint new_rcomp > 0xFF then 0xFF
         else if sint new_rcomp < 0 then 0
         else new_rcomp)"

definition max17048_update_rcomp :: "i2c_bus \<Rightarrow> max17048_chip \<Rightarrow> s32 \<Rightarrow> max17048_chip" where
  "max17048_update_rcomp bus chip0 temp =
     (let mdata = model_data (pdata chip0);
          new_rcomp = new_rcomp_of mdata temp;
          (val, chip) = max17048_read_word bus chip0 MAX17048_CONFIG
      in
        if val < 0 then chip
        else
          (let val = val AND 0xFF;
               val = val OR push_bit 8 (sint new_rcomp);
               (ret, chip) = max17048_write_word bus chip MAX17048_CONFIG (word_of_int val)
           in chip))"

section \<open>The periodic work (lines 438-500)\<close>

text \<open>
  \<^verbatim>\<open>abs\<close> on a \<^verbatim>\<open>long\<close>. In the work function, \<open>machine\<close> is the value of
  \<^verbatim>\<open>machine_is_tegratab() || machine_is_tegranote7c()\<close> and \<open>thz\<close> the reading of
  the thermal zone.
\<close>

definition labs :: "s32 \<Rightarrow> s32" where
  "labs x = (if sint x < 0 then - x else x)"

text \<open>
  \<^verbatim>\<open>max17048_work\<close> in its four blocks: the temperature reading (lines 445-450),
  the thermal update (lines 452-458), the hot and cold checks (lines 465-475) and the
  change detection that ends a sampling pass (lines 477-481).
\<close>

definition work_read_temperature :: "bool \<Rightarrow> s32 option \<Rightarrow> max17048_chip \<Rightarrow> max17048_chip" where
  "work_read_temperature machine thz chip =
     (if machine then chip\<lparr>temperature := max17048_thz_get_temp thz\<rparr> else chip)"

definition work_update_rcomp :: "i2c_bus \<Rightarrow> max17048_chip \<Rightarrow> max17048_chip" where
  "work_update_rcomp bus chip0 =
     (if sint (labs (temperature chip0 - lasttime_temperature chip0)) \<ge> 1500 then
        (let chip = chip0\<lparr>lasttime_temperature := temperature chip0\<rparr>;
             chip = max17048_update_rcomp bus chip (temperature chip)
         in power_supply_changed chip)
      else chip0)"

definition work_check_temperature :: "max17048_chip \<Rightarrow> max17048_chip" where
  "work_check_temperature chip =
     (if sint (temperature chip) > MAX17048_BATTERY_HOT then
        power_supply_changed (chip\<lparr>health := POWER_SUPPLY_HEALTH_OVERHEAT\<rparr>)
      else if sint (temperature chip) < MAX17048_BATTERY_COLD then
        power_supply_changed (chip\<lparr>health := POWER_SUPPLY_HEALTH_COLD\<rparr>)
      else chip)"

definition work_report_change :: "max17048_chip \<Rightarrow> max17048_chip" where
  "work_report_change chip =
     (if soc chip \<noteq> lasttime_soc chip \<or> status chip \<noteq> lasttime_status chip then
        power_supply_changed (chip\<lparr>lasttime_soc := soc chip\<rparr>)
      else chip)"

definition max17048_work ::
  "i2c_bus \<Rightarrow> bool \<Rightarrow> s32 option \<Rightarrow> max17048_chip \<Rightarrow> max17048_chip" where
  "max17048_work bus machine thz chip0 =
     (let chip = work_read_temperature machine thz chip0;
          chip = work_update_rcomp bus chip;
          chip = max17048_get_vcell bus chip;
          chip = max17048_get_soc bus chip;
          chip = max17048_set_current_threshold chip;
          chip = max17048_sysedp_throttle chip;
          chip = work_check_temperature chip;
          chip = work_report_change chip
      in schedule_delayed_work MAX17048_DELAY chip)"

text \<open>
  \<^verbatim>\<open>max17048_battery_status\<close>: \<open>in_progress\<close> is the value of
  \<^verbatim>\<open>status == progress\<close>. This is the one place that writes \<^verbatim>\<open>lasttime_status\<close>
  after probing.
\<close>

definition max17048_battery_status :: "max17048_chip option \<Rightarrow> bool \<Rightarrow> max17048_chip option" where
  "max17048_battery_status max17048_data in_progress =
     (case max17048_data of
        None \<Rightarrow> None
      | Some chip0 \<Rightarrow>
          (let chip = (if in_progress then chip0\<lparr>status := POWER_SUPPLY_STATUS_CHARGING\<rparr>
                       else chip0\<lparr>status := POWER_SUPPLY_STATUS_DISCHARGING\<rparr>);
               chip = power_supply_changed chip
           in Some (chip\<lparr>lasttime_status := status chip\<rparr>)))"

section \<open>Model loader and initialization (lines 533-702)\<close>

definition max17048_write_rcomp_seg :: "i2c_bus \<Rightarrow> max17048_chip \<Rightarrow> u16 \<Rightarrow> int \<times> max17048_chip" where
  "max17048_write_rcomp_seg bus chip0 seg =
     (let rs1 = (ucast (drop_bit 8 seg AND 0xff) :: u8);
          rs2 = (ucast (seg AND 0xff) :: u8);
          rcomp_seg_table = concat (replicate 8 [rs1, rs2]);
          (ret, chip) = max17048_write_block bus chip0 (word_of_int MAX17048_RCOMPSEG1) 16
                          rcomp_seg_table
      in if ret < 0 then (ret, chip)
         else
           (let (ret, chip) = max17048_write_block bus chip (word_of_int MAX17048_RCOMPSEG2) 16
                                rcomp_seg_table
            in if ret < 0 then (ret, chip) else (0, chip)))"

text \<open>
  The loop of lines 589-597 from block \<open>i\<close> on: \<open>False\<close> when a block write failed
  (the function then returns \<open>-1\<close>), \<open>True\<close> when all four blocks are written.
\<close>

function write_model_table :: "i2c_bus \<Rightarrow> max17048_chip \<Rightarrow> nat \<Rightarrow> bool \<times> max17048_chip" where
  "write_model_table bus chip i =
     (if i < 4 then
        (case max17048_write_block bus chip (word_of_int (MAX17048_TABLE + int i * 16)) 16
                (drop (i * 0x10) (data_tbl (model_data (pdata chip)))) of
           (r, chip') \<Rightarrow> if r < 0 then (False, chip') else write_model_table bus chip' (Suc i))
      else (True, chip))"
  by pat_completeness auto
termination
  by (relation "measure (\<lambda>(bus, chip, i). 4 - i)") auto

declare write_model_table.simps [simp del]

definition max17048_load_model_data :: "i2c_bus \<Rightarrow> max17048_chip \<Rightarrow> int \<times> max17048_chip" where
  "max17048_load_model_data bus chip0 =
     (let mdata = model_data (pdata chip0);
          (ret, chip) = max17048_read_word bus chip0 MAX17048_OCV
      in
      if ret < 0 then (ret, chip) else
      (let ocv = (word_of_int ret :: u16) in
       if ocv = 0xffff then (- 1, chip) else
       (let (written, chip) = write_model_table bus chip 0 in
        if \<not> written then (- 1, chip) else
        (let (ret, chip) = max17048_write_word bus chip MAX17048_OCV (ocvtest mdata) in
         if ret < 0 then (ret, chip) else
         (let (ret, chip) = max17048_write_rcomp_seg bus chip (rcomp_seg mdata) in
          if ret < 0 then (ret, chip) else
          (let (ret, chip) = max17048_write_word bus chip MAX17048_HIBRT 0x0000 in
           if ret < 0 then (ret, chip) else
           (let (ret, chip) = max17048_write_word bus chip MAX17048_UNLOCK 0x0000 in
            if ret < 0 then (ret, chip) else
            (let chip = mdelay 200 chip;
                 (ret, chip) = max17048_read_word bus chip MAX17048_SOC
             in
             if ret < 0 then (ret, chip) else
             (let soc_tst = (word_of_int ret :: u16) in
              if \<not> (uint (drop_bit 8 soc_tst) \<ge> sint (soccheck_A mdata)
                     \<and> uint (drop_bit 8 soc_tst) \<le> sint (soccheck_B mdata))
              then (ret, chip)
              else
              (let (ret, chip) = max17048_write_word bus chip MAX17048_UNLOCK
                                   MAX17048_UNLOCK_VALUE in
               if ret < 0 then (ret, chip) else
               (let (ret, chip) = max17048_write_word bus chip MAX17048_OCV ocv in
                if ret < 0 then (ret, chip) else (ret, chip))))))))))))"

text \<open>
  The word \<^verbatim>\<open>max17048_initialize\<close> writes to the config register: the alert byte of
  lines 672-678, computed in \<^verbatim>\<open>uint8_t config\<close>, under the base RCOMP value
  (line 681).
\<close>

definition initialize_config :: "max17048_battery_model \<Rightarrow> u16" where
  "initialize_config mdata =
     (let config = (0 :: u8);
          config = (if bits mdata = 19 then (ucast (32 - alert_threshold mdata * 2) :: u8)
                    else if bits mdata = 18 then ucast (32 - alert_threshold mdata)
                    else config);
          config = (ucast (one_percent_alerts mdata OR ucast config) :: u8)
      in ucast (push_bit 8 (rcomp mdata) OR ucast config))"

text \<open>
  \<^verbatim>\<open>max17048_initialize\<close> keeps every result in \<^verbatim>\<open>uint8_t ret\<close>: each result is
  narrowed to eight bits, and the tests \<^verbatim>\<open>ret < 0\<close> compare the promoted, unsigned
  value.
\<close>

definition max17048_initialize :: "i2c_bus \<Rightarrow> max17048_chip \<Rightarrow> int \<times> max17048_chip" where
  "max17048_initialize bus chip0 =
     (let mdata = model_data (pdata chip0);
          (r, chip) = max17048_write_word bus chip0 MAX17048_UNLOCK MAX17048_UNLOCK_VALUE;
          ret = (word_of_int r :: u8)
      in
      if uint ret < 0 then (uint ret, chip) else
      (let (r, chip) = max17048_load_model_data bus chip;
           ret = (word_of_int r :: u8)
       in
       if uint ret < 0 then (uint ret, chip) else
       (let (r, chip) = max17048_write_word bus chip MAX17048_CONFIG (initialize_config mdata);
            ret = (word_of_int r :: u8)
        in
        if uint ret < 0 then (uint ret, chip) else
        (let (r, chip) = max17048_write_word bus chip MAX17048_VALRT (valert mdata);
             ret = (word_of_int r :: u8)
         in
         if uint ret < 0 then (uint ret, chip) else
         (let (r, chip) = max17048_write_word bus chip MAX17048_VRESET (vreset mdata);
              ret = (word_of_int r :: u8)
          in
          if uint ret < 0 then (uint ret, chip) else
          (let (r, chip) = max17048_write_word bus chip MAX17048_UNLOCK 0x0000;
               ret = (word_of_int r :: u8)
           in
           if uint ret < 0 then (uint ret, chip) else
           (0, mdelay 200 chip)))))))"

section \<open>Alert handler (lines 721-814)\<close>

text \<open>
  The handler reads the status register into \<^verbatim>\<open>u16 val\<close> and then works through the
  status bits in a fixed order. The branches that change the state are separate
  definitions: \<^verbatim>\<open>MAX17048_STATUS_VL\<close> (lines 743-759), \<^verbatim>\<open>MAX17048_STATUS_HD\<close>
  (lines 762-770) and \<^verbatim>\<open>MAX17048_STATUS_SC\<close> (lines 771-791); the other bits only log.
\<close>

definition irq_status_vl :: "i2c_bus \<Rightarrow> max17048_chip \<Rightarrow> u16 \<Rightarrow> max17048_chip" where
  "irq_status_vl bus chip0 val =
     (if val AND MAX17048_STATUS_VL \<noteq> 0 then
        (let mdata = model_data (pdata chip0);
             chip = chip0\<lparr>soc := 0\<rparr>;
             chip = chip\<lparr>lasttime_soc := soc chip\<rparr>;
             chip = chip\<lparr>status := lasttime_status chip\<rparr>;
             chip = chip\<lparr>health := POWER_SUPPLY_HEALTH_DEAD\<rparr>;
             chip = chip\<lparr>capacity_level := POWER_SUPPLY_CAPACITY_LEVEL_CRITICAL\<rparr>;
             chip = power_supply_changed chip;
             valrt = valert mdata AND 0x00FF;
             (ret, chip) = max17048_write_word bus chip MAX17048_VALRT valrt
         in chip)
      else chip0)"

definition irq_status_hd :: "i2c_bus \<Rightarrow> max17048_chip \<Rightarrow> u16 \<Rightarrow> max17048_chip" where
  "irq_status_hd bus chip0 val =
     (if val AND MAX17048_STATUS_HD \<noteq> 0 then
        (let chip = max17048_get_vcell bus chip0;
             chip = max17048_get_soc bus chip;
             chip = chip\<lparr>lasttime_soc := soc chip\<rparr>
         in power_supply_changed chip)
      else chip0)"

definition irq_status_sc :: "i2c_bus \<Rightarrow> max17048_chip \<Rightarrow> u16 \<Rightarrow> max17048_chip" where
  "irq_status_sc bus chip0 val =
     (if val AND MAX17048_STATUS_SC \<noteq> 0 then
        (let mdata = model_data (pdata chip0);
             chip = max17048_get_vcell bus chip0;
             chip = max17048_get_soc bus chip;
             chip = max17048_set_current_threshold chip;
             chip = max17048_sysedp_throttle chip;
             chip = chip\<lparr>lasttime_soc := soc chip\<rparr>;
             chip = power_supply_changed chip
         in
           if internal_soc chip \<ge> 1 then
             (let (ret, chip) = max17048_write_word bus chip MAX17048_VALRT (valert mdata)
              in chip)
           else chip)
      else chip0)"

text \<open>Lines 739-797: the status bits in order, then the write that clears the status register.\<close>

definition irq_handle_status :: "i2c_bus \<Rightarrow> max17048_chip \<Rightarrow> u16 \<Rightarrow> max17048_chip" where
  "irq_handle_status bus chip0 val =
     (let chip = irq_status_vl bus chip0 val;
          chip = irq_status_hd bus chip val;
          chip = irq_status_sc bus chip val;
          (ret, chip) = max17048_write_word bus chip MAX17048_STATUS 0x0000
      in chip)"

text \<open>Lines 799-813, from the label \<^verbatim>\<open>clear_irq\<close> on.\<close>

definition irq_clear_irq :: "i2c_bus \<Rightarrow> max17048_chip \<Rightarrow> max17048_chip" where
  "irq_clear_irq bus chip0 =
     (let (r, chip) = max17048_read_word bus chip0 MAX17048_CONFIG;
          val = (word_of_int r :: u16)
      in
        if uint val < 0 then chip
        else
          (let val = val AND NOT MAX17048_CONFIG_ALRT;
               (ret, chip) = max17048_write_word bus chip MAX17048_CONFIG val
           in chip))"

text \<open>
  \<^verbatim>\<open>max17048_irq\<close> always returns \<^verbatim>\<open>IRQ_HANDLED\<close>; the model returns the state.
  The test of line 731 is on the promoted \<^verbatim>\<open>u16\<close>.
\<close>

definition max17048_irq :: "i2c_bus \<Rightarrow> max17048_chip \<Rightarrow> max17048_chip" where
  "max17048_irq bus chip0 =
     (let (r, chip) = max17048_read_word bus chip0 MAX17048_STATUS;
          val = (word_of_int r :: u16)
      in
        if uint val < 0 then irq_clear_irq bus chip
        else irq_clear_irq bus (irq_handle_status bus chip val))"

section \<open>Shutdown (lines 1211-1242)\<close>

definition max17048_shutdown :: "i2c_bus \<Rightarrow> max17048_chip \<Rightarrow> max17048_chip" where
  "max17048_shutdown bus chip0 =
     (let mdata = model_data (pdata chip0);
          (val, chip) = max17048_read_word bus chip0 MAX17048_CONFIG;
          chip =
            (if val < 0 then chip
             else
               (let val = val AND 0xFF;
                    val = val OR push_bit 8 (sint (rcomp mdata));
                    (ret, chip) = max17048_write_word bus chip MAX17048_CONFIG (word_of_int val)
                in chip));
          chip = mutex_lock chip;
          chip = chip\<lparr>shutdown_complete := 1\<rparr>
      in mutex_unlock chip)"

section \<open>Reference definitions of the specification\<close>

text \<open>
  The current-threshold table as the specification describes it: the first
  \<^verbatim>\<open>current_threshold_num\<close> pairs of SOC bound and threshold, in table order.
\<close>

definition current_threshold_table :: "max17048_platform_data \<Rightarrow> (int \<times> int) list" where
  "current_threshold_table pd =
     take (nat (current_threshold_num pd))
       (zip (current_threshold_soc pd) (pdata_current_threshold pd))"

text \<open>
  The first entry whose SOC bound is at least \<open>isoc\<close> and whose threshold is nonzero,
  and the selection rule of the specification: that entry's threshold, or the normal
  threshold when no entry matches.
\<close>

definition first_match :: "int \<Rightarrow> (int \<times> int) list \<Rightarrow> (int \<times> int) option" where
  "first_match isoc table = find (\<lambda>(bound, threshold). isoc \<le> bound \<and> threshold \<noteq> 0) table"

definition selected_threshold :: "int \<Rightarrow> (int \<times> int) list \<Rightarrow> int \<Rightarrow> int" where
  "selected_threshold isoc table normal =
     (case first_match isoc table of None \<Rightarrow> normal | Some (bound, threshold) \<Rightarrow> threshold)"

text \<open>
  The thermal compensation of the specification, over unbounded integers, with the
  temperature in millidegrees: \<open>delta = (temperature - 20000) * coefficient / 1000000\<close>
  with the hot coefficient above 20 degrees, the cold one below and no correction at
  20 degrees, the quotient truncated as the C division does; then
  \<open>clamp (rcompBase + delta) 0 255\<close>.
\<close>

definition clamp :: "int \<Rightarrow> int \<Rightarrow> int \<Rightarrow> int" where
  "clamp x lo hi = (if x > hi then hi else if x < lo then lo else x)"

definition rcomp_delta :: "int \<Rightarrow> int \<Rightarrow> int \<Rightarrow> int" where
  "rcomp_delta temp coefficientHot coefficientCold =
     (if temp > 20000 then c_sdiv ((temp - 20000) * coefficientHot) 1000000
      else if temp < 20000 then c_sdiv ((temp - 20000) * coefficientCold) 1000000
      else 0)"

definition rcomp_spec :: "int \<Rightarrow> int \<Rightarrow> int \<Rightarrow> int \<Rightarrow> int" where
  "rcomp_spec rcompBase temp coefficientHot coefficientCold =
     clamp (rcompBase + rcomp_delta temp coefficientHot coefficientCold) 0 255"

text \<open>The values a C \<^verbatim>\<open>int\<close> of 32 bits represents.\<close>

definition fits_int :: "int \<Rightarrow> bool" where
  "fits_int k \<longleftrightarrow> - 2147483648 \<le> k \<and> k < 2147483648"

section \<open>Framing and sample configurations\<close>

text \<open>
  What the sampler and the alert handler leave alone: the platform data, the shutdown
  flag and \<^verbatim>\<open>lasttime_status\<close>; the bus trace only grows.
\<close>

definition frame :: "max17048_chip \<Rightarrow> max17048_chip \<Rightarrow> bool" where
  "frame chip chip' \<longleftrightarrow>
     pdata chip' = pdata chip
     \<and> shutdown_complete chip' = shutdown_complete chip
     \<and> lasttime_status chip' = lasttime_status chip
     \<and> prefix (trace chip) (trace chip')"

text \<open>
  A battery model and platform data in the shape of a board file, with the policy table
  \<open>[(30, 500), (60, 900)]\<close>, and the chip as \<^verbatim>\<open>max17048_probe\<close> allocates it
  (lines 1086-1105): zeroed, platform data attached, mutex free, not shut down.
\<close>

definition board_model :: max17048_battery_model where
  "board_model =
     \<lparr>rcomp = 105, soccheck_A = 240, soccheck_B = 242, bits = 19, alert_threshold = 0,
      one_percent_alerts = 0x40, rcomp_seg = 0x0080, hibernate = 0x3080, vreset = 0x3c96,
      valert = 0xD4AA, ocvtest = 55952, t_co_hot = - 1125, t_co_cold = - 6350,
      data_tbl = replicate 64 0\<rparr>"

definition board_pdata :: max17048_platform_data where
  "board_pdata =
     \<lparr>model_data = board_model,
      set_current_threshold = Some (\<lambda>threshold min_cpu. 0),
      current_normal = 1200,
      current_threshold_num = 2,
      current_threshold_soc = [30, 60],
      pdata_current_threshold = [500, 900],
      sysedp_throttle = False,
      sysedp_throttle_num = 0,
      sysedp_throttle_soc = [],
      sysedp_throttle_power = []\<rparr>"

definition chip_alloc :: "max17048_platform_data \<Rightarrow> max17048_chip" where
  "chip_alloc pd =
     \<lparr>pdata = pd, vcell = 0, soc = 0,
      status = POWER_SUPPLY_STATUS_UNKNOWN, health = POWER_SUPPLY_HEALTH_UNKNOWN,
      capacity_level = POWER_SUPPLY_CAPACITY_LEVEL_UNKNOWN,
      temperature = 0, current_threshold = 0, internal_soc = 0, lasttime_soc = 0,
      lasttime_status = POWER_SUPPLY_STATUS_UNKNOWN, lasttime_temperature = 0,
      lasttime_current_threshold = 0, shutdown_complete = 0, mutex = False,
      trace = [], changed = 0, scheduled = [], threshold_calls = [], throttle_calls = []\<rparr>"

text \<open>
  Two buses: one on which every transaction fails with \<open>-EIO\<close>, and one on which every
  write succeeds and a read of register \<open>r\<close> returns \<open>regs r\<close> (in wire order, before
  the byte swap of \<^verbatim>\<open>max17048_read_word\<close>).
\<close>

definition failing_bus :: i2c_bus where
  "failing_bus tr = - EIO"

definition register_bus :: "(u8 \<Rightarrow> int) \<Rightarrow> i2c_bus" where
  "register_bus regs tr = (case last tr of XReadWord r \<Rightarrow> regs r | _ \<Rightarrow> 0)"

text \<open>A bus whose charge-state register reads \<open>w\<close> and whose other registers read \<open>0x1234\<close>.\<close>

definition soc_bus :: "int \<Rightarrow> i2c_bus" where
  "soc_bus w = register_bus (\<lambda>r. if r = 0x04 then w else 0x1234)"

section \<open>Properties of the register transport\<close>

lemmas reg_defs =
  MAX17048_VCELL_def MAX17048_SOC_def MAX17048_VER_def MAX17048_HIBRT_def
  MAX17048_CONFIG_def MAX17048_OCV_def MAX17048_VALRT_def MAX17048_VRESET_def
  MAX17048_STATUS_def MAX17048_UNLOCK_def MAX17048_TABLE_def MAX17048_RCOMPSEG1_def
  MAX17048_RCOMPSEG2_def MAX17048_UNLOCK_VALUE_def

lemmas status_bit_defs =
  MAX17048_STATUS_RI_def MAX17048_STATUS_VH_def MAX17048_STATUS_VL_def
  MAX17048_STATUS_VR_def MAX17048_STATUS_HD_def MAX17048_STATUS_SC_def
  MAX17048_STATUS_ENVR_def MAX17048_CONFIG_ALRT_def

lemmas sample_defs =
  board_model_def board_pdata_def chip_alloc_def failing_bus_def register_bus_def soc_bus_def
  EIO_def ENODEV_def

lemma max17048_write_word_eq:
  "max17048_write_word bus chip reg v =
     (if shutdown_complete chip \<noteq> 0 then (- ENODEV, chip\<lparr>mutex := False\<rparr>)
      else (bus (trace chip @ [XWriteWord (word_of_int reg) (swab16 v)]),
            chip\<lparr>mutex := False,
                 trace := trace chip @ [XWriteWord (word_of_int reg) (swab16 v)]\<rparr>))"
  by (simp add: max17048_write_word_def mutex_lock_def mutex_unlock_def
      i2c_smbus_write_word_data_def i2c_transfer_def Let_def)

lemma max17048_write_block_eq:
  "max17048_write_block bus chip command len vs =
     (if shutdown_complete chip \<noteq> 0 then (- ENODEV, chip\<lparr>mutex := False\<rparr>)
      else (bus (trace chip @ [XWriteBlock command (take (unat len) vs)]),
            chip\<lparr>mutex := False,
                 trace := trace chip @ [XWriteBlock command (take (unat len) vs)]\<rparr>))"
  by (simp add: max17048_write_block_def mutex_lock_def mutex_unlock_def
      i2c_smbus_write_i2c_block_data_def i2c_transfer_def Let_def)

lemma max17048_read_word_eq:
  "max17048_read_word bus chip reg =
     (if shutdown_complete chip \<noteq> 0 then (- ENODEV, chip\<lparr>mutex := False\<rparr>)
      else
        let r = bus (trace chip @ [XReadWord (word_of_int reg)]);
            chip' = chip\<lparr>mutex := False, trace := trace chip @ [XReadWord (word_of_int reg)]\<rparr>
        in if r < 0 then (r, chip')
           else (uint (swab16 (word_of_int (r AND 0x0000ffff))), chip'))"
  by (simp add: max17048_read_word_def mutex_lock_def mutex_unlock_def
      i2c_smbus_read_word_data_def i2c_transfer_def Let_def)

lemma shutdown_sets_flag: "shutdown_complete (max17048_shutdown bus chip) = 1"
  by (simp add: max17048_shutdown_def Let_def split_beta mutex_lock_def mutex_unlock_def)

text \<open>
  C3. Once \<^verbatim>\<open>shutdown_complete\<close> is set, \<^verbatim>\<open>max17048_read_word\<close>,
  \<^verbatim>\<open>max17048_write_word\<close> and \<^verbatim>\<open>max17048_write_block\<close> each return \<open>-ENODEV\<close>
  (\<open>-19\<close>) on any bus. The state they return is the one they were given with the mutex
  released: the bus trace is unchanged (no transaction took place) and the flag is still
  set, so the same holds for every later call.
\<close>

theorem shutdown_fences_transport:
  assumes "shutdown_complete chip \<noteq> 0"
  shows "max17048_read_word bus chip reg = (- 19, chip\<lparr>mutex := False\<rparr>)
       \<and> max17048_write_word bus chip reg v = (- 19, chip\<lparr>mutex := False\<rparr>)
       \<and> max17048_write_block bus chip command len vs = (- 19, chip\<lparr>mutex := False\<rparr>)
       \<and> trace (snd (max17048_read_word bus chip reg)) = trace chip
       \<and> trace (snd (max17048_write_word bus chip reg v)) = trace chip
       \<and> trace (snd (max17048_write_block bus chip command len vs)) = trace chip
       \<and> \<not> mutex (snd (max17048_read_word bus chip reg))
       \<and> \<not> mutex (snd (max17048_write_word bus chip reg v))
       \<and> \<not> mutex (snd (max17048_write_block bus chip command len vs))"
  using assms
  by (simp add: max17048_read_word_eq max17048_write_word_eq max17048_write_block_eq ENODEV_def)

text \<open>
  The theorem at the state \<^verbatim>\<open>max17048_shutdown\<close> leaves behind on a working bus:
  the flag is set, and a read, a write and a block write all return \<open>-19\<close> without
  adding to the two transactions of the shutdown itself.
\<close>

theorem shutdown_fences_transport_witness:
  "shutdown_complete (max17048_shutdown (soc_bus 0) (chip_alloc board_pdata)) \<noteq> 0
   \<and> fst (max17048_read_word (soc_bus 0)
            (max17048_shutdown (soc_bus 0) (chip_alloc board_pdata)) MAX17048_VCELL) = - 19
   \<and> fst (max17048_write_word (soc_bus 0)
            (max17048_shutdown (soc_bus 0) (chip_alloc board_pdata)) MAX17048_VCELL 7) = - 19
   \<and> fst (max17048_write_block (soc_bus 0)
            (max17048_shutdown (soc_bus 0) (chip_alloc board_pdata)) 0x40 16 []) = - 19
   \<and> trace (snd (max17048_read_word (soc_bus 0)
            (max17048_shutdown (soc_bus 0) (chip_alloc board_pdata)) MAX17048_VCELL))
       = [XReadWord 0x0C, XWriteWord 0x0C 0x1269]"
proof -
  have flag: "shutdown_complete (max17048_shutdown (soc_bus 0) (chip_alloc board_pdata)) \<noteq> 0"
    by (simp add: shutdown_sets_flag)
  have tr: "trace (max17048_shutdown (soc_bus 0) (chip_alloc board_pdata))
              = [XReadWord 0x0C, XWriteWord 0x0C 0x1269]"
    by (simp add: max17048_shutdown_def Let_def split_beta mutex_lock_def mutex_unlock_def
        max17048_read_word_eq max17048_write_word_eq sample_defs reg_defs swab16_def)
  show ?thesis
    using flag tr
      shutdown_fences_transport [OF flag, of "soc_bus 0" MAX17048_VCELL 7 "0x40" 16 "[]"]
    by simp
qed

text \<open>
  C10. With a null instance pointer, \<^verbatim>\<open>max17048_check_vcell\<close> and
  \<^verbatim>\<open>max17048_check_soc\<close> return \<open>-1\<close> and \<^verbatim>\<open>max17048_check_battery\<close> returns
  \<open>-ENODEV\<close> (\<open>-19\<close>) whatever the bus would answer; the instance is still null
  afterwards, so no device state was read or written.
\<close>

theorem query_entry_points_guard_null:
  "max17048_check_vcell None = (- 1, None)
   \<and> max17048_check_soc None = (- 1, None)
   \<and> max17048_check_battery bus None = (- 19, None)"
  by (simp add: max17048_check_vcell_def max17048_check_soc_def max17048_check_battery_def
      ENODEV_def)

section \<open>Properties of the state sampler\<close>

lemma read_word_fields:
  "status (snd (max17048_read_word bus chip reg)) = status chip"
  "lasttime_status (snd (max17048_read_word bus chip reg)) = lasttime_status chip"
  "internal_soc (snd (max17048_read_word bus chip reg)) = internal_soc chip"
  "pdata (snd (max17048_read_word bus chip reg)) = pdata chip"
  "shutdown_complete (snd (max17048_read_word bus chip reg)) = shutdown_complete chip"
  by (simp_all add: max17048_read_word_eq Let_def)

lemma read_word_value:
  assumes "0 \<le> fst (max17048_read_word bus chip reg)"
  shows "\<exists>w :: u16. fst (max17048_read_word bus chip reg) = uint w"
  using assms by (auto simp: max17048_read_word_eq Let_def ENODEV_def split: if_splits)

text \<open>
  C4. After a successful read of the charge-state register, \<^verbatim>\<open>max17048_get_soc\<close> sets
  \<^verbatim>\<open>internal_soc\<close> to the register value shifted right by 8 (18 bits) or 9, and
  derives the reported state from it: at 100 or more, status is promoted to Full when
  it was Charging and otherwise kept, \<open>soc = 100\<close>, capacity level Full, health Good;
  below 15, status is restored from \<^verbatim>\<open>lasttime_status\<close>, health Dead, capacity level
  Critical, \<open>soc = internal_soc\<close>; otherwise status is restored from
  \<^verbatim>\<open>lasttime_status\<close>, health Good, capacity level Normal, \<open>soc = internal_soc\<close>.
\<close>

theorem get_soc_derived_state:
  assumes "0 \<le> fst (max17048_read_word bus chip MAX17048_SOC)"
  shows "let r = fst (max17048_read_word bus chip MAX17048_SOC);
             chip' = max17048_get_soc bus chip;
             isoc = internal_soc chip'
         in isoc = (if bits (model_data (pdata chip)) = 18 then r div 2 ^ 8 else r div 2 ^ 9)
          \<and> (if isoc \<ge> 100 then
                status chip' = (if status chip = POWER_SUPPLY_STATUS_CHARGING
                                then POWER_SUPPLY_STATUS_FULL else status chip)
                \<and> soc chip' = 100
                \<and> capacity_level chip' = POWER_SUPPLY_CAPACITY_LEVEL_FULL
                \<and> health chip' = POWER_SUPPLY_HEALTH_GOOD
              else if isoc < 15 then
                status chip' = lasttime_status chip
                \<and> health chip' = POWER_SUPPLY_HEALTH_DEAD
                \<and> capacity_level chip' = POWER_SUPPLY_CAPACITY_LEVEL_CRITICAL
                \<and> soc chip' = isoc
              else
                status chip' = lasttime_status chip
                \<and> health chip' = POWER_SUPPLY_HEALTH_GOOD
                \<and> capacity_level chip' = POWER_SUPPLY_CAPACITY_LEVEL_NORMAL
                \<and> soc chip' = isoc)"
proof -
  obtain r c where rc: "max17048_read_word bus chip MAX17048_SOC = (r, c)"
    by (cases "max17048_read_word bus chip MAX17048_SOC")
  have f: "status c = status chip" "lasttime_status c = lasttime_status chip"
    using read_word_fields(1,2) [of bus chip MAX17048_SOC] by (simp_all add: rc)
  obtain w :: u16 where w: "r = uint w"
    using read_word_value [OF assms] by (auto simp: rc)
  have sh: "uint (drop_bit 8 (word_of_int r :: u16)) = r div 2 ^ 8"
           "uint (drop_bit 9 (word_of_int r :: u16)) = r div 2 ^ 9"
    by (simp_all add: w drop_bit_eq_div uint_div_distrib)
  have nn: "\<not> r < 0" using w by simp
  show ?thesis
  proof (cases "bits (model_data (pdata chip)) = 18")
    case True
    then show ?thesis
      by (simp add: max17048_get_soc_def rc Let_def f sh nn
          MAX17048_BATTERY_FULL_def MAX17048_BATTERY_LOW_def)
  next
    case False
    then show ?thesis
      by (simp add: max17048_get_soc_def rc Let_def f sh nn
          MAX17048_BATTERY_FULL_def MAX17048_BATTERY_LOW_def)
  qed
qed

text \<open>
  The theorem on a charging battery whose charge-state register reads \<open>0xC800\<close>
  (\<open>0x00C8\<close> on the wire), which is 100 percent at 19 bits: the status becomes Full.
\<close>

theorem get_soc_derived_state_witness:
  "0 \<le> fst (max17048_read_word (soc_bus 0x00C8)
            ((chip_alloc board_pdata)\<lparr>status := POWER_SUPPLY_STATUS_CHARGING\<rparr>) MAX17048_SOC)
   \<and> internal_soc (max17048_get_soc (soc_bus 0x00C8)
            ((chip_alloc board_pdata)\<lparr>status := POWER_SUPPLY_STATUS_CHARGING\<rparr>)) = 100
   \<and> status (max17048_get_soc (soc_bus 0x00C8)
            ((chip_alloc board_pdata)\<lparr>status := POWER_SUPPLY_STATUS_CHARGING\<rparr>))
       = POWER_SUPPLY_STATUS_FULL
   \<and> soc (max17048_get_soc (soc_bus 0x00C8)
            ((chip_alloc board_pdata)\<lparr>status := POWER_SUPPLY_STATUS_CHARGING\<rparr>)) = 100
   \<and> capacity_level (max17048_get_soc (soc_bus 0x00C8)
            ((chip_alloc board_pdata)\<lparr>status := POWER_SUPPLY_STATUS_CHARGING\<rparr>))
       = POWER_SUPPLY_CAPACITY_LEVEL_FULL
   \<and> health (max17048_get_soc (soc_bus 0x00C8)
            ((chip_alloc board_pdata)\<lparr>status := POWER_SUPPLY_STATUS_CHARGING\<rparr>))
       = POWER_SUPPLY_HEALTH_GOOD"
proof -
  let ?chip = "(chip_alloc board_pdata)\<lparr>status := POWER_SUPPLY_STATUS_CHARGING\<rparr>"
  have r: "fst (max17048_read_word (soc_bus 0x00C8) ?chip MAX17048_SOC) = 51200"
    by (simp add: max17048_read_word_eq sample_defs reg_defs swab16_def Let_def)
  then have h: "0 \<le> fst (max17048_read_word (soc_bus 0x00C8) ?chip MAX17048_SOC)"
    by simp
  have b: "bits (model_data (pdata ?chip)) \<noteq> 18" "status ?chip = POWER_SUPPLY_STATUS_CHARGING"
    by (simp_all add: sample_defs)
  show ?thesis
    using h b get_soc_derived_state [OF h]
    by (simp add: Let_def r)
qed

subsection \<open>What a pass leaves alone\<close>

lemma frame_refl [simp]: "frame chip chip"
  by (simp add: frame_def)

lemma frame_trans [trans]: "frame a b \<Longrightarrow> frame b c \<Longrightarrow> frame a c"
  by (auto simp: frame_def)

lemma frame_write_word: "frame chip (snd (max17048_write_word bus chip reg v))"
  by (simp add: frame_def max17048_write_word_eq)

lemma frame_read_word: "frame chip (snd (max17048_read_word bus chip reg))"
  by (simp add: frame_def max17048_read_word_eq Let_def)

lemma frame_power_supply_changed: "frame chip (power_supply_changed chip)"
  by (simp add: power_supply_changed_def frame_def)

lemma frame_get_vcell: "frame chip (max17048_get_vcell bus chip)"
  using frame_read_word [of chip bus MAX17048_VCELL]
  by (simp add: max17048_get_vcell_def split_beta frame_def)

lemma frame_get_soc: "frame chip (max17048_get_soc bus chip)"
  using frame_read_word [of chip bus MAX17048_SOC]
  by (simp add: max17048_get_soc_def split_beta frame_def Let_def)

lemma frame_threshold_loop: "frame chip (fst (current_threshold_loop chip m i))"
proof (induction chip m i rule: current_threshold_loop.induct)
  case (1 chip min_cpu i)
  show ?case
    using "1.IH" by (subst current_threshold_loop.simps) (simp add: frame_def)
qed

lemma frame_set_current_threshold: "frame chip (max17048_set_current_threshold chip)"
proof -
  have "frame (chip\<lparr>current_threshold := x\<rparr>)
          (fst (current_threshold_loop (chip\<lparr>current_threshold := x\<rparr>) 2 0))" for x
    by (rule frame_threshold_loop)
  then show ?thesis
    by (simp add: max17048_set_current_threshold_def split_beta frame_def Let_def
        split: option.splits)
qed

lemma frame_sysedp_throttle: "frame chip (max17048_sysedp_throttle chip)"
  by (simp add: max17048_sysedp_throttle_def frame_def)

lemma frame_update_rcomp: "frame chip (max17048_update_rcomp bus chip temp)"
proof -
  let ?c1 = "snd (max17048_read_word bus chip MAX17048_CONFIG)"
  have "frame chip ?c1" by (rule frame_read_word)
  moreover have "frame ?c1 (snd (max17048_write_word bus ?c1 reg v))" for reg v
    by (rule frame_write_word)
  ultimately show ?thesis
    by (auto simp: max17048_update_rcomp_def split_beta Let_def intro: frame_trans)
qed

lemma frame_sample:
  "frame chip (max17048_sysedp_throttle (max17048_set_current_threshold
     (max17048_get_soc bus (max17048_get_vcell bus chip))))"
proof -
  have "frame chip (max17048_get_vcell bus chip)"
    by (rule frame_get_vcell)
  also have "frame \<dots> (max17048_get_soc bus \<dots>)"
    by (rule frame_get_soc)
  also have "frame \<dots> (max17048_set_current_threshold \<dots>)"
    by (rule frame_set_current_threshold)
  also have "frame \<dots> (max17048_sysedp_throttle \<dots>)"
    by (rule frame_sysedp_throttle)
  finally show ?thesis .
qed

lemma frame_work_report_change: "frame chip (work_report_change chip)"
  by (simp add: work_report_change_def power_supply_changed_def frame_def)

lemma frame_work_read_temperature: "frame chip (work_read_temperature machine thz chip)"
  by (simp add: work_read_temperature_def frame_def)

lemma frame_work_update_rcomp: "frame chip (work_update_rcomp bus chip)"
proof -
  have "frame (chip\<lparr>lasttime_temperature := t\<rparr>)
          (max17048_update_rcomp bus (chip\<lparr>lasttime_temperature := t\<rparr>) t')" for t t'
    by (rule frame_update_rcomp)
  then show ?thesis
    by (simp add: work_update_rcomp_def Let_def frame_def power_supply_changed_def)
qed

lemma frame_work_check_temperature: "frame chip (work_check_temperature chip)"
  by (simp add: work_check_temperature_def frame_def power_supply_changed_def)

lemma frame_work: "frame chip (max17048_work bus machine thz chip)"
proof -
  have "frame chip (work_read_temperature machine thz chip)"
    by (rule frame_work_read_temperature)
  also have "frame \<dots> (work_update_rcomp bus \<dots>)"
    by (rule frame_work_update_rcomp)
  also have "frame \<dots> (max17048_sysedp_throttle (max17048_set_current_threshold
               (max17048_get_soc bus (max17048_get_vcell bus \<dots>))))"
    by (rule frame_sample)
  also have "frame \<dots> (work_check_temperature \<dots>)"
    by (rule frame_work_check_temperature)
  also have "frame \<dots> (work_report_change \<dots>)"
    by (rule frame_work_report_change)
  finally show ?thesis
    by (simp add: max17048_work_def schedule_delayed_work_def frame_def Let_def)
qed

text \<open>
  C8, as the driver has it. The change detection that ends a sampling pass: when
  \<^verbatim>\<open>soc\<close> differs from \<^verbatim>\<open>lasttime_soc\<close> or \<^verbatim>\<open>status\<close> from
  \<^verbatim>\<open>lasttime_status\<close>, \<^verbatim>\<open>lasttime_soc\<close> becomes the current \<^verbatim>\<open>soc\<close> and one
  change notification is raised; when neither differs, nothing changes and nothing is
  raised. \<^verbatim>\<open>lasttime_status\<close> is not written, by this step or anywhere in
  \<^verbatim>\<open>max17048_work\<close>: it keeps the status last reported by the charger.
\<close>

theorem work_report_change_updates_soc_shadow:
  "work_report_change chip =
     (if soc chip \<noteq> lasttime_soc chip \<or> status chip \<noteq> lasttime_status chip
      then chip\<lparr>lasttime_soc := soc chip, changed := Suc (changed chip)\<rparr>
      else chip)
   \<and> lasttime_status (work_report_change chip) = lasttime_status chip
   \<and> lasttime_status (max17048_work bus machine thz chip) = lasttime_status chip"
proof -
  have "frame chip (max17048_work bus machine thz chip)"
    by (rule frame_work)
  then show ?thesis
    by (simp add: work_report_change_def power_supply_changed_def frame_def)
qed

text \<open>
  The theorem at a state where only the status differs from its shadow (Full against
  Charging): the notification is raised, \<^verbatim>\<open>lasttime_soc\<close> is written and
  \<^verbatim>\<open>lasttime_status\<close> stays Charging.
\<close>

theorem work_report_change_updates_soc_shadow_witness:
  "work_report_change
     ((chip_alloc board_pdata)\<lparr>soc := 100, lasttime_soc := 100,
        status := POWER_SUPPLY_STATUS_FULL, lasttime_status := POWER_SUPPLY_STATUS_CHARGING\<rparr>)
     = (chip_alloc board_pdata)\<lparr>soc := 100, lasttime_soc := 100,
        status := POWER_SUPPLY_STATUS_FULL, lasttime_status := POWER_SUPPLY_STATUS_CHARGING,
        changed := 1\<rparr>"
  using work_report_change_updates_soc_shadow
    [of "(chip_alloc board_pdata)\<lparr>soc := 100, lasttime_soc := 100,
        status := POWER_SUPPLY_STATUS_FULL, lasttime_status := POWER_SUPPLY_STATUS_CHARGING\<rparr>"
        failing_bus False None]
  by (simp add: chip_alloc_def)

text \<open>
  One pass of \<^verbatim>\<open>max17048_work\<close> on a charging battery whose charge-state register
  reads 100 percent, evaluated block by block.
\<close>

lemma work_pass_at_full:
  "max17048_work (soc_bus 0x00C8) False None
     ((chip_alloc board_pdata)\<lparr>status := POWER_SUPPLY_STATUS_CHARGING,
        lasttime_status := POWER_SUPPLY_STATUS_CHARGING\<rparr>)
   = (chip_alloc board_pdata)\<lparr>status := POWER_SUPPLY_STATUS_FULL,
        lasttime_status := POWER_SUPPLY_STATUS_CHARGING,
        vcell := 1041, trace := [XReadWord 0x02, XReadWord 0x04],
        internal_soc := 100, soc := 100,
        capacity_level := POWER_SUPPLY_CAPACITY_LEVEL_FULL,
        health := POWER_SUPPLY_HEALTH_GOOD,
        current_threshold := 1200, threshold_calls := [(1200, 2)],
        lasttime_current_threshold := 1200,
        lasttime_soc := 100, changed := 1, scheduled := [10]\<rparr>"
proof -
  let ?bus = "soc_bus 0x00C8"
  let ?c0 = "(chip_alloc board_pdata)\<lparr>status := POWER_SUPPLY_STATUS_CHARGING,
        lasttime_status := POWER_SUPPLY_STATUS_CHARGING\<rparr>"
  let ?c1 = "?c0\<lparr>vcell := 1041, trace := [XReadWord 0x02]\<rparr>"
  let ?c2 = "?c1\<lparr>trace := [XReadWord 0x02, XReadWord 0x04], internal_soc := 100, soc := 100,
        status := POWER_SUPPLY_STATUS_FULL,
        capacity_level := POWER_SUPPLY_CAPACITY_LEVEL_FULL,
        health := POWER_SUPPLY_HEALTH_GOOD\<rparr>"
  let ?c3 = "?c2\<lparr>current_threshold := 1200, threshold_calls := [(1200, 2)],
        lasttime_current_threshold := 1200\<rparr>"
  let ?c4 = "?c3\<lparr>lasttime_soc := 100, changed := 1\<rparr>"
  have s1: "work_read_temperature False None ?c0 = ?c0"
    by (simp add: work_read_temperature_def)
  have s2: "work_update_rcomp ?bus ?c0 = ?c0"
    by (simp add: work_update_rcomp_def labs_def chip_alloc_def)
  have s3: "max17048_get_vcell ?bus ?c0 = ?c1"
    by (simp add: max17048_get_vcell_def max17048_read_word_eq sample_defs reg_defs swab16_def
        Let_def)
  have s4: "max17048_get_soc ?bus ?c1 = ?c2"
    by (simp add: max17048_get_soc_def max17048_read_word_eq sample_defs reg_defs swab16_def
        Let_def MAX17048_BATTERY_FULL_def)
  have s5: "max17048_set_current_threshold ?c2 = ?c3"
    by (simp add: max17048_set_current_threshold_def current_threshold_loop.simps sample_defs
        Let_def)
  have s6: "max17048_sysedp_throttle ?c3 = ?c3"
    by (simp add: max17048_sysedp_throttle_def sample_defs)
  have s7: "work_check_temperature ?c3 = ?c3"
    by (simp add: work_check_temperature_def sample_defs MAX17048_BATTERY_HOT_def
        MAX17048_BATTERY_COLD_def)
  have s8: "work_report_change ?c3 = ?c4"
    by (simp add: work_report_change_def power_supply_changed_def sample_defs)
  have "max17048_work ?bus False None ?c0 = schedule_delayed_work MAX17048_DELAY ?c4"
    by (simp only: max17048_work_def Let_def s1 s2 s3 s4 s5 s6 s7 s8)
  then show ?thesis
    by (simp add: schedule_delayed_work_def MAX17048_DELAY_def chip_alloc_def)
qed

text \<open>
  That both shadows follow the current values does not hold on that pass: it ends
  with status Full while \<^verbatim>\<open>lasttime_status\<close> is still Charging, although the
  status differed from its shadow, the notification was raised and \<^verbatim>\<open>lasttime_soc\<close>
  was brought to the current \<^verbatim>\<open>soc\<close>.
\<close>

theorem work_report_change_counterexample:
  "status (max17048_work (soc_bus 0x00C8) False None
     ((chip_alloc board_pdata)\<lparr>status := POWER_SUPPLY_STATUS_CHARGING,
        lasttime_status := POWER_SUPPLY_STATUS_CHARGING\<rparr>)) = POWER_SUPPLY_STATUS_FULL
   \<and> lasttime_status (max17048_work (soc_bus 0x00C8) False None
     ((chip_alloc board_pdata)\<lparr>status := POWER_SUPPLY_STATUS_CHARGING,
        lasttime_status := POWER_SUPPLY_STATUS_CHARGING\<rparr>)) = POWER_SUPPLY_STATUS_CHARGING
   \<and> soc (max17048_work (soc_bus 0x00C8) False None
     ((chip_alloc board_pdata)\<lparr>status := POWER_SUPPLY_STATUS_CHARGING,
        lasttime_status := POWER_SUPPLY_STATUS_CHARGING\<rparr>)) = 100
   \<and> lasttime_soc (max17048_work (soc_bus 0x00C8) False None
     ((chip_alloc board_pdata)\<lparr>status := POWER_SUPPLY_STATUS_CHARGING,
        lasttime_status := POWER_SUPPLY_STATUS_CHARGING\<rparr>)) = 100
   \<and> changed (max17048_work (soc_bus 0x00C8) False None
     ((chip_alloc board_pdata)\<lparr>status := POWER_SUPPLY_STATUS_CHARGING,
        lasttime_status := POWER_SUPPLY_STATUS_CHARGING\<rparr>)) = 1"
  by (simp add: work_pass_at_full)

section \<open>Properties of the alert handler\<close>

lemma frame_irq_status_vl: "frame chip (irq_status_vl bus chip val)"
  by (simp add: irq_status_vl_def frame_def max17048_write_word_eq power_supply_changed_def
      Let_def)

lemma frame_irq_status_hd: "frame chip (irq_status_hd bus chip val)"
proof -
  have "frame chip (max17048_get_vcell bus chip)"
    by (rule frame_get_vcell)
  also have "frame \<dots> (max17048_get_soc bus \<dots>)"
    by (rule frame_get_soc)
  finally show ?thesis
    by (simp add: irq_status_hd_def frame_def power_supply_changed_def Let_def)
qed

text \<open>The state of the \<^verbatim>\<open>MAX17048_STATUS_SC\<close> branch just before its test of line 784.\<close>

lemma irq_status_sc_eq:
  "irq_status_sc bus chip val =
     (if val AND MAX17048_STATUS_SC \<noteq> 0 then
        (if 1 \<le> internal_soc (max17048_sysedp_throttle (max17048_set_current_threshold
                    (max17048_get_soc bus (max17048_get_vcell bus chip))))
         then snd (max17048_write_word bus
                (power_supply_changed
                   ((max17048_sysedp_throttle (max17048_set_current_threshold
                       (max17048_get_soc bus (max17048_get_vcell bus chip))))
                    \<lparr>lasttime_soc := soc (max17048_sysedp_throttle
                       (max17048_set_current_threshold
                          (max17048_get_soc bus (max17048_get_vcell bus chip))))\<rparr>))
                MAX17048_VALRT (valert (model_data (pdata chip))))
         else power_supply_changed
                ((max17048_sysedp_throttle (max17048_set_current_threshold
                    (max17048_get_soc bus (max17048_get_vcell bus chip))))
                 \<lparr>lasttime_soc := soc (max17048_sysedp_throttle
                    (max17048_set_current_threshold
                       (max17048_get_soc bus (max17048_get_vcell bus chip))))\<rparr>))
      else chip)"
  by (simp add: irq_status_sc_def Let_def split_beta power_supply_changed_def)

lemma frame_irq_status_sc: "frame chip (irq_status_sc bus chip val)"
proof -
  define c where "c = max17048_sysedp_throttle (max17048_set_current_threshold
                        (max17048_get_soc bus (max17048_get_vcell bus chip)))"
  have c: "frame chip c"
    unfolding c_def by (rule frame_sample)
  then have d: "frame chip (power_supply_changed (c\<lparr>lasttime_soc := soc c\<rparr>))"
    by (simp add: frame_def power_supply_changed_def)
  also have "frame \<dots> (snd (max17048_write_word bus \<dots> MAX17048_VALRT
                               (valert (model_data (pdata chip)))))"
    by (rule frame_write_word)
  finally show ?thesis
    using d by (simp add: irq_status_sc_eq flip: c_def)
qed

lemma frame_irq_clear_irq: "frame chip (irq_clear_irq bus chip)"
proof -
  let ?c1 = "snd (max17048_read_word bus chip MAX17048_CONFIG)"
  have 1: "frame chip ?c1" by (rule frame_read_word)
  also have "frame ?c1 (snd (max17048_write_word bus ?c1 MAX17048_CONFIG v))" for v
    by (rule frame_write_word)
  finally show ?thesis
    using 1 by (simp add: irq_clear_irq_def split_beta Let_def)
qed

lemma irq_status_bits_frame:
  "frame chip (irq_status_sc bus (irq_status_hd bus (irq_status_vl bus chip val) val) val)"
proof -
  have "frame chip (irq_status_vl bus chip val)"
    by (rule frame_irq_status_vl)
  also have "frame \<dots> (irq_status_hd bus \<dots> val)"
    by (rule frame_irq_status_hd)
  also have "frame \<dots> (irq_status_sc bus \<dots> val)"
    by (rule frame_irq_status_sc)
  finally show ?thesis .
qed

text \<open>
  C9. The test of line 731 never succeeds: whatever \<^verbatim>\<open>max17048_read_word\<close> returns,
  \<^verbatim>\<open>max17048_irq\<close> takes the returned value, narrowed to 16 bits, as the status
  bitmask, works through its bits, issues the write that clears the status register and
  only then continues at \<^verbatim>\<open>clear_irq\<close>. Unless the transport is fenced by shutdown,
  the write of zero to the status register (\<open>0x1A\<close>) reaches the bus after the status
  read, also when that read failed.
\<close>

theorem irq_read_error_branch_unreachable:
  "max17048_irq bus chip =
     irq_clear_irq bus
       (irq_handle_status bus (snd (max17048_read_word bus chip MAX17048_STATUS))
          (word_of_int (fst (max17048_read_word bus chip MAX17048_STATUS))))
   \<and> (shutdown_complete chip = 0 \<longrightarrow>
        (\<exists>pre post. trace (max17048_irq bus chip) =
           trace chip @ [XReadWord 0x1A] @ pre @ [XWriteWord 0x1A 0] @ post))"
proof (intro conjI impI)
  show eq: "max17048_irq bus chip =
     irq_clear_irq bus
       (irq_handle_status bus (snd (max17048_read_word bus chip MAX17048_STATUS))
          (word_of_int (fst (max17048_read_word bus chip MAX17048_STATUS))))"
    by (simp add: max17048_irq_def split_beta Let_def)
  assume live: "shutdown_complete chip = 0"
  define c1 where "c1 = snd (max17048_read_word bus chip MAX17048_STATUS)"
  define val :: u16 where "val = word_of_int (fst (max17048_read_word bus chip MAX17048_STATUS))"
  define c2 where "c2 = irq_status_sc bus (irq_status_hd bus (irq_status_vl bus c1 val) val) val"
  define c3 where "c3 = snd (max17048_write_word bus c2 MAX17048_STATUS 0)"
  have t1: "trace c1 = trace chip @ [XReadWord 0x1A]" and s1: "shutdown_complete c1 = 0"
    using live by (simp_all add: c1_def max17048_read_word_eq Let_def MAX17048_STATUS_def)
  have "frame c1 c2"
    unfolding c2_def by (rule irq_status_bits_frame)
  then obtain pre where t2: "trace c2 = trace c1 @ pre" and s2: "shutdown_complete c2 = 0"
    using s1 by (auto simp: frame_def prefix_def)
  have t3: "trace c3 = trace c2 @ [XWriteWord 0x1A 0]"
    using s2 by (simp add: c3_def max17048_write_word_eq MAX17048_STATUS_def swab16_def)
  have "frame c3 (irq_clear_irq bus c3)"
    by (rule frame_irq_clear_irq)
  then obtain post where t4: "trace (irq_clear_irq bus c3) = trace c3 @ post"
    by (auto simp: frame_def prefix_def)
  have "max17048_irq bus chip = irq_clear_irq bus c3"
    by (simp add: eq irq_handle_status_def Let_def split_beta c1_def val_def c2_def c3_def)
  then show "\<exists>pre post. trace (max17048_irq bus chip) =
           trace chip @ [XReadWord 0x1A] @ pre @ [XWriteWord 0x1A 0] @ post"
    using t1 t2 t3 t4 by (intro exI [of _ pre] exI [of _ post]) simp
qed

text \<open>
  The handler on a bus where every transaction fails, evaluated block by block. The
  failed status read arrives as \<open>0xFFFB\<close>, so every alert bit counts as set: the
  voltage-low branch forces the state of charge to zero, both re-reading branches run,
  the status register is cleared, and the failed read of the config register leads to a
  write of \<open>0xFFDB\<close> to it.
\<close>

lemma irq_on_failing_bus:
  "max17048_irq failing_bus (chip_alloc board_pdata) =
     (chip_alloc board_pdata)
       \<lparr>health := POWER_SUPPLY_HEALTH_DEAD,
        capacity_level := POWER_SUPPLY_CAPACITY_LEVEL_CRITICAL,
        current_threshold := 500, lasttime_current_threshold := 500,
        trace := [XReadWord 0x1A, XWriteWord 0x14 0xAA00, XReadWord 0x02, XReadWord 0x04,
                  XReadWord 0x02, XReadWord 0x04, XWriteWord 0x1A 0, XReadWord 0x0C,
                  XWriteWord 0x0C 0xDBFF],
        changed := 3, threshold_calls := [(500, 1)]\<rparr>"
proof -
  let ?c0 = "chip_alloc board_pdata"
  let ?c1 = "?c0\<lparr>trace := [XReadWord 0x1A]\<rparr>"
  let ?c2 = "?c0\<lparr>health := POWER_SUPPLY_HEALTH_DEAD,
        capacity_level := POWER_SUPPLY_CAPACITY_LEVEL_CRITICAL,
        trace := [XReadWord 0x1A, XWriteWord 0x14 0xAA00], changed := 1\<rparr>"
  let ?c3 = "?c0\<lparr>health := POWER_SUPPLY_HEALTH_DEAD,
        capacity_level := POWER_SUPPLY_CAPACITY_LEVEL_CRITICAL,
        trace := [XReadWord 0x1A, XWriteWord 0x14 0xAA00, XReadWord 0x02, XReadWord 0x04],
        changed := 2\<rparr>"
  let ?c4 = "?c0\<lparr>health := POWER_SUPPLY_HEALTH_DEAD,
        capacity_level := POWER_SUPPLY_CAPACITY_LEVEL_CRITICAL,
        current_threshold := 500, lasttime_current_threshold := 500,
        trace := [XReadWord 0x1A, XWriteWord 0x14 0xAA00, XReadWord 0x02, XReadWord 0x04,
                  XReadWord 0x02, XReadWord 0x04],
        changed := 3, threshold_calls := [(500, 1)]\<rparr>"
  let ?c5 = "?c0\<lparr>health := POWER_SUPPLY_HEALTH_DEAD,
        capacity_level := POWER_SUPPLY_CAPACITY_LEVEL_CRITICAL,
        current_threshold := 500, lasttime_current_threshold := 500,
        trace := [XReadWord 0x1A, XWriteWord 0x14 0xAA00, XReadWord 0x02, XReadWord 0x04,
                  XReadWord 0x02, XReadWord 0x04, XWriteWord 0x1A 0],
        changed := 3, threshold_calls := [(500, 1)]\<rparr>"
  have r: "max17048_read_word failing_bus ?c0 MAX17048_STATUS = (- 5, ?c1)"
    by (simp add: max17048_read_word_eq sample_defs reg_defs Let_def)
  have v: "(- 5 :: u16) = 0xFFFB"
    by simp
  have vl: "irq_status_vl failing_bus ?c1 (- 5) = ?c2"
    by (simp add: v irq_status_vl_def max17048_write_word_eq power_supply_changed_def
        sample_defs reg_defs status_bit_defs swab16_def Let_def)
  have hd: "irq_status_hd failing_bus ?c2 (- 5) = ?c3"
    by (simp add: v irq_status_hd_def max17048_get_vcell_def max17048_get_soc_def
        max17048_read_word_eq power_supply_changed_def sample_defs reg_defs status_bit_defs
        Let_def MAX17048_BATTERY_FULL_def MAX17048_BATTERY_LOW_def)
  have gs: "max17048_get_soc failing_bus (max17048_get_vcell failing_bus ?c3) =
              ?c3\<lparr>trace := [XReadWord 0x1A, XWriteWord 0x14 0xAA00, XReadWord 0x02,
                             XReadWord 0x04, XReadWord 0x02, XReadWord 0x04]\<rparr>"
    by (simp add: max17048_get_vcell_def max17048_get_soc_def max17048_read_word_eq
        sample_defs reg_defs Let_def MAX17048_BATTERY_FULL_def MAX17048_BATTERY_LOW_def)
  have th: "max17048_sysedp_throttle (max17048_set_current_threshold
              (?c3\<lparr>trace := [XReadWord 0x1A, XWriteWord 0x14 0xAA00, XReadWord 0x02,
                             XReadWord 0x04, XReadWord 0x02, XReadWord 0x04]\<rparr>)) =
              ?c3\<lparr>trace := [XReadWord 0x1A, XWriteWord 0x14 0xAA00, XReadWord 0x02,
                             XReadWord 0x04, XReadWord 0x02, XReadWord 0x04],
                   current_threshold := 500, lasttime_current_threshold := 500,
                   threshold_calls := [(500, 1)]\<rparr>"
    by (simp add: max17048_set_current_threshold_def max17048_sysedp_throttle_def
        current_threshold_loop.simps sample_defs Let_def)
  have sc: "irq_status_sc failing_bus ?c3 (- 5) = ?c4"
    by (simp only: irq_status_sc_eq gs th)
       (simp add: v power_supply_changed_def status_bit_defs chip_alloc_def)
  have st: "snd (max17048_write_word failing_bus ?c4 MAX17048_STATUS 0) = ?c5"
    by (simp add: max17048_write_word_eq sample_defs reg_defs swab16_def)
  have hs: "irq_handle_status failing_bus ?c1 (- 5) = ?c5"
    by (simp only: irq_handle_status_def Let_def split_beta vl hd sc st)
  have cl: "irq_clear_irq failing_bus ?c5 =
              ?c5\<lparr>trace := [XReadWord 0x1A, XWriteWord 0x14 0xAA00, XReadWord 0x02,
                  XReadWord 0x04, XReadWord 0x02, XReadWord 0x04, XWriteWord 0x1A 0,
                  XReadWord 0x0C, XWriteWord 0x0C 0xDBFF]\<rparr>"
    by (simp add: irq_clear_irq_def max17048_read_word_eq max17048_write_word_eq
        sample_defs reg_defs status_bit_defs swab16_def Let_def)
  have "max17048_irq failing_bus ?c0 = irq_clear_irq failing_bus ?c5"
    by (simp add: max17048_irq_def r hs)
  then show ?thesis
    by (simp add: cl)
qed

text \<open>
  The theorem at that call: the handler is not shut down, and the trace it leaves has the
  status read first and the clearing write of the status register after the three
  branches.
\<close>

theorem irq_read_error_branch_unreachable_witness:
  "shutdown_complete (chip_alloc board_pdata) = 0
   \<and> fst (max17048_read_word failing_bus (chip_alloc board_pdata) MAX17048_STATUS) < 0
   \<and> (\<exists>pre post. trace (max17048_irq failing_bus (chip_alloc board_pdata)) =
          trace (chip_alloc board_pdata) @ [XReadWord 0x1A] @ pre @ [XWriteWord 0x1A 0] @ post)
   \<and> trace (max17048_irq failing_bus (chip_alloc board_pdata)) =
        [XReadWord 0x1A, XWriteWord 0x14 0xAA00, XReadWord 0x02, XReadWord 0x04,
         XReadWord 0x02, XReadWord 0x04, XWriteWord 0x1A 0, XReadWord 0x0C,
         XWriteWord 0x0C 0xDBFF]"
proof -
  have live: "shutdown_complete (chip_alloc board_pdata) = 0"
    by (simp add: chip_alloc_def)
  have failed: "fst (max17048_read_word failing_bus (chip_alloc board_pdata) MAX17048_STATUS) < 0"
    by (simp add: max17048_read_word_eq sample_defs Let_def)
  from irq_read_error_branch_unreachable [of failing_bus "chip_alloc board_pdata"] live
  have "\<exists>pre post. trace (max17048_irq failing_bus (chip_alloc board_pdata)) =
          trace (chip_alloc board_pdata) @ [XReadWord 0x1A] @ pre @ [XWriteWord 0x1A 0] @ post"
    by blast
  then show ?thesis
    using live failed by (simp add: irq_on_failing_bus)
qed

lemma low_byte_mask: "(w :: u16) AND 0x00FF = take_bit 8 w"
  by (simp add: take_bit_eq_mask mask_eq_exp_minus_1)

lemma irq_status_sc_restores_valert:
  assumes sc: "val AND MAX17048_STATUS_SC \<noteq> 0"
      and live: "shutdown_complete chip = 0"
      and soc1: "1 \<le> internal_soc (irq_status_sc bus chip val)"
  shows "\<exists>pre. trace (irq_status_sc bus chip val) =
           trace chip @ pre @ [XWriteWord 0x14 (swab16 (valert (model_data (pdata chip))))]"
proof -
  define c where "c = max17048_sysedp_throttle (max17048_set_current_threshold
                        (max17048_get_soc bus (max17048_get_vcell bus chip)))"
  define d where "d = power_supply_changed (c\<lparr>lasttime_soc := soc c\<rparr>)"
  have "frame chip c"
    unfolding c_def by (rule frame_sample)
  then have fd: "frame chip d"
    by (simp add: d_def frame_def power_supply_changed_def)
  then obtain pre where pre: "trace d = trace chip @ pre" and ld: "shutdown_complete d = 0"
    using live by (auto simp: frame_def prefix_def)
  have eq: "irq_status_sc bus chip val =
              (if 1 \<le> internal_soc c
               then snd (max17048_write_word bus d MAX17048_VALRT (valert (model_data (pdata chip))))
               else d)"
    using sc by (simp add: irq_status_sc_eq d_def flip: c_def)
  have "internal_soc (irq_status_sc bus chip val) = internal_soc c"
    by (simp add: eq max17048_write_word_eq d_def power_supply_changed_def)
  with soc1 have "1 \<le> internal_soc c"
    by simp
  then have "irq_status_sc bus chip val =
               snd (max17048_write_word bus d MAX17048_VALRT (valert (model_data (pdata chip))))"
    by (simp add: eq)
  then have "trace (irq_status_sc bus chip val) =
               trace d @ [XWriteWord 0x14 (swab16 (valert (model_data (pdata chip))))]"
    using ld by (simp add: max17048_write_word_eq MAX17048_VALRT_def)
  then show ?thesis
    using pre by simp
qed

text \<open>
  C7, as the driver has it. The voltage-low branch forces \<open>soc = 0\<close>, sets the shadow
  \<^verbatim>\<open>lasttime_soc\<close> to it, restores the status from \<^verbatim>\<open>lasttime_status\<close>, sets health
  Dead and capacity level Critical, raises one notification and, unless the transport
  is fenced, writes \<open>valert AND 0x00FF\<close> to the voltage-alert register (\<open>0x14\<close>): the
  low byte of the written word is that of \<^verbatim>\<open>valert\<close> and its high byte is zero. The
  SOC-change branch, when the \<^verbatim>\<open>internal_soc\<close> it ends with is at least 1, ends with
  a write of the whole \<^verbatim>\<open>valert\<close> word to that register.
\<close>

theorem voltage_low_alert_clears_high_byte:
  "(val AND MAX17048_STATUS_VL \<noteq> 0 \<longrightarrow>
      soc (irq_status_vl bus chip val) = 0
      \<and> lasttime_soc (irq_status_vl bus chip val) = 0
      \<and> status (irq_status_vl bus chip val) = lasttime_status chip
      \<and> health (irq_status_vl bus chip val) = POWER_SUPPLY_HEALTH_DEAD
      \<and> capacity_level (irq_status_vl bus chip val) = POWER_SUPPLY_CAPACITY_LEVEL_CRITICAL
      \<and> changed (irq_status_vl bus chip val) = Suc (changed chip)
      \<and> (shutdown_complete chip = 0 \<longrightarrow>
            trace (irq_status_vl bus chip val) =
              trace chip @ [XWriteWord 0x14 (swab16 (valert (model_data (pdata chip)) AND 0x00FF))]))
   \<and> take_bit 8 (valert (model_data (pdata chip)) AND 0x00FF)
       = take_bit 8 (valert (model_data (pdata chip)))
   \<and> drop_bit 8 (valert (model_data (pdata chip)) AND 0x00FF) = 0
   \<and> (val AND MAX17048_STATUS_SC \<noteq> 0 \<and> shutdown_complete chip = 0
        \<and> 1 \<le> internal_soc (irq_status_sc bus chip val) \<longrightarrow>
        (\<exists>pre. trace (irq_status_sc bus chip val) =
           trace chip @ pre @ [XWriteWord 0x14 (swab16 (valert (model_data (pdata chip))))]))"
proof (intro conjI impI)
  assume vl: "val AND MAX17048_STATUS_VL \<noteq> 0"
  then show "soc (irq_status_vl bus chip val) = 0"
    and "lasttime_soc (irq_status_vl bus chip val) = 0"
    and "status (irq_status_vl bus chip val) = lasttime_status chip"
    and "health (irq_status_vl bus chip val) = POWER_SUPPLY_HEALTH_DEAD"
    and "capacity_level (irq_status_vl bus chip val) = POWER_SUPPLY_CAPACITY_LEVEL_CRITICAL"
    and "changed (irq_status_vl bus chip val) = Suc (changed chip)"
    by (simp_all add: irq_status_vl_def Let_def max17048_write_word_eq power_supply_changed_def)
  assume "shutdown_complete chip = 0"
  with vl show "trace (irq_status_vl bus chip val) =
      trace chip @ [XWriteWord 0x14 (swab16 (valert (model_data (pdata chip)) AND 0x00FF))]"
    by (simp add: irq_status_vl_def Let_def max17048_write_word_eq power_supply_changed_def
        MAX17048_VALRT_def)
next
  show "take_bit 8 (valert (model_data (pdata chip)) AND 0x00FF)
          = take_bit 8 (valert (model_data (pdata chip)))"
    by (simp add: low_byte_mask)
  show "drop_bit 8 (valert (model_data (pdata chip)) AND 0x00FF) = 0"
    by (simp add: low_byte_mask drop_bit_take_bit)
next
  assume "val AND MAX17048_STATUS_SC \<noteq> 0 \<and> shutdown_complete chip = 0
            \<and> 1 \<le> internal_soc (irq_status_sc bus chip val)"
  then show "\<exists>pre. trace (irq_status_sc bus chip val) =
           trace chip @ pre @ [XWriteWord 0x14 (swab16 (valert (model_data (pdata chip))))]"
    by (intro irq_status_sc_restores_valert) simp_all
qed

text \<open>
  The SOC-change branch on a working bus whose charge-state register reads 100 percent,
  evaluated block by block.
\<close>

lemma irq_status_sc_at_full:
  "irq_status_sc (soc_bus 0x00C8) (chip_alloc board_pdata) 0x2400 =
     (chip_alloc board_pdata)
       \<lparr>vcell := 1041, soc := 100, health := POWER_SUPPLY_HEALTH_GOOD,
        capacity_level := POWER_SUPPLY_CAPACITY_LEVEL_FULL,
        current_threshold := 1200, internal_soc := 100, lasttime_soc := 100,
        lasttime_current_threshold := 1200,
        trace := [XReadWord 0x02, XReadWord 0x04, XWriteWord 0x14 0xAAD4],
        changed := 1, threshold_calls := [(1200, 2)]\<rparr>"
proof -
  let ?bus = "soc_bus 0x00C8"
  let ?c0 = "chip_alloc board_pdata"
  let ?c1 = "?c0\<lparr>vcell := 1041, soc := 100, health := POWER_SUPPLY_HEALTH_GOOD,
        capacity_level := POWER_SUPPLY_CAPACITY_LEVEL_FULL, internal_soc := 100,
        trace := [XReadWord 0x02, XReadWord 0x04]\<rparr>"
  let ?c2 = "?c0\<lparr>vcell := 1041, soc := 100, health := POWER_SUPPLY_HEALTH_GOOD,
        capacity_level := POWER_SUPPLY_CAPACITY_LEVEL_FULL,
        current_threshold := 1200, internal_soc := 100,
        lasttime_current_threshold := 1200,
        trace := [XReadWord 0x02, XReadWord 0x04], threshold_calls := [(1200, 2)]\<rparr>"
  have gs: "max17048_get_soc ?bus (max17048_get_vcell ?bus ?c0) = ?c1"
    by (simp add: max17048_get_vcell_def max17048_get_soc_def max17048_read_word_eq
        sample_defs reg_defs swab16_def Let_def MAX17048_BATTERY_FULL_def)
  have th: "max17048_sysedp_throttle (max17048_set_current_threshold ?c1) = ?c2"
    by (simp add: max17048_set_current_threshold_def max17048_sysedp_throttle_def
        current_threshold_loop.simps sample_defs Let_def)
  show ?thesis
    by (simp only: irq_status_sc_eq gs th)
       (simp add: power_supply_changed_def max17048_write_word_eq status_bit_defs
        sample_defs reg_defs swab16_def)
qed

text \<open>
  The theorem on the board's configuration, \<^verbatim>\<open>valert = 0xD4AA\<close>, with the voltage-low
  and SOC-change bits set: the voltage-low branch writes \<open>0x00AA\<close> (\<open>0xAA00\<close> on the
  wire), and the SOC-change branch at 100 percent ends with a write of \<open>0xD4AA\<close>
  (\<open>0xAAD4\<close> on the wire).
\<close>

theorem voltage_low_alert_clears_high_byte_witness:
  "(0x2400 :: u16) AND MAX17048_STATUS_VL \<noteq> 0
   \<and> (0x2400 :: u16) AND MAX17048_STATUS_SC \<noteq> 0
   \<and> shutdown_complete (chip_alloc board_pdata) = 0
   \<and> 1 \<le> internal_soc (irq_status_sc (soc_bus 0x00C8) (chip_alloc board_pdata) 0x2400)
   \<and> soc (irq_status_vl (soc_bus 0x00C8) (chip_alloc board_pdata) 0x2400) = 0
   \<and> health (irq_status_vl (soc_bus 0x00C8) (chip_alloc board_pdata) 0x2400)
       = POWER_SUPPLY_HEALTH_DEAD
   \<and> trace (irq_status_vl (soc_bus 0x00C8) (chip_alloc board_pdata) 0x2400)
       = [XWriteWord 0x14 0xAA00]
   \<and> (\<exists>pre. trace (irq_status_sc (soc_bus 0x00C8) (chip_alloc board_pdata) 0x2400)
       = pre @ [XWriteWord 0x14 0xAAD4])"
proof -
  have vl: "(0x2400 :: u16) AND MAX17048_STATUS_VL \<noteq> 0"
    and sc: "(0x2400 :: u16) AND MAX17048_STATUS_SC \<noteq> 0"
    by (simp_all add: status_bit_defs)
  have live: "shutdown_complete (chip_alloc board_pdata) = 0"
    and t0: "trace (chip_alloc board_pdata) = []"
    and va: "valert (model_data (pdata (chip_alloc board_pdata))) = 0xD4AA"
    by (simp_all add: sample_defs)
  have isoc: "1 \<le> internal_soc (irq_status_sc (soc_bus 0x00C8) (chip_alloc board_pdata) 0x2400)"
    by (simp add: irq_status_sc_at_full)
  have w: "swab16 0x00AA = 0xAA00" "swab16 0xD4AA = 0xAAD4"
    by (simp_all add: swab16_def)
  show ?thesis
    using vl sc live isoc
      voltage_low_alert_clears_high_byte [of "0x2400" "soc_bus 0x00C8" "chip_alloc board_pdata"]
    by (simp add: t0 va w)
qed

text \<open>
  That only the low byte of the voltage-alert register changes while its high byte is
  preserved does not hold on the board's configuration: the register was set to
  \<open>0xD4AA\<close>, the voltage-low branch writes \<open>0x00AA\<close>, whose high byte \<open>0x00\<close> is not
  the \<open>0xD4\<close> of before and whose low byte \<open>0xAA\<close> is unchanged.
\<close>

theorem voltage_low_alert_counterexample:
  "trace (irq_status_vl (soc_bus 0x00C8) (chip_alloc board_pdata) MAX17048_STATUS_VL)
     = [XWriteWord 0x14 (swab16 0x00AA)]
   \<and> drop_bit 8 (0x00AA :: u16) \<noteq> drop_bit 8 (valert (model_data (pdata (chip_alloc board_pdata))))
   \<and> take_bit 8 (0x00AA :: u16) = take_bit 8 (valert (model_data (pdata (chip_alloc board_pdata))))"
  by (simp add: irq_status_vl_def Let_def max17048_write_word_eq power_supply_changed_def
      sample_defs reg_defs status_bit_defs swab16_def)

section \<open>Properties of the current-threshold policy\<close>

text \<open>
  The loop from index \<open>i\<close> on finds the first matching entry of the rest of the table.
\<close>

lemma current_threshold_loop_first_match:
  assumes "nat (current_threshold_num (pdata chip)) \<le> length (current_threshold_soc (pdata chip))"
      and "nat (current_threshold_num (pdata chip)) \<le> length (pdata_current_threshold (pdata chip))"
  shows "current_threshold_loop chip m i =
     (case first_match (internal_soc chip) (drop i (current_threshold_table (pdata chip))) of
        None \<Rightarrow> (chip, m)
      | Some (bound, threshold) \<Rightarrow> (chip\<lparr>current_threshold := threshold\<rparr>, 1))"
  using assms
proof (induction chip m i rule: current_threshold_loop.induct)
  case (1 chip min_cpu i)
  let ?tab = "current_threshold_table (pdata chip)"
  have len: "length ?tab = nat (current_threshold_num (pdata chip))"
    using "1.prems" by (simp add: current_threshold_table_def)
  show ?case
  proof (cases "int i < current_threshold_num (pdata chip)")
    case False
    then have "drop i ?tab = []"
      using len by simp
    with False show ?thesis
      by (subst current_threshold_loop.simps) (simp add: first_match_def)
  next
    case True
    then have i: "i < length ?tab"
      using len by simp
    then have d: "drop i ?tab = ?tab ! i # drop (Suc i) ?tab"
      by (simp add: Cons_nth_drop_Suc)
    have n: "?tab ! i = (current_threshold_soc (pdata chip) ! i,
                          pdata_current_threshold (pdata chip) ! i)"
      using i "1.prems" by (simp add: current_threshold_table_def)
    show ?thesis
    proof (cases "internal_soc chip \<le> current_threshold_soc (pdata chip) ! i
                    \<and> pdata_current_threshold (pdata chip) ! i \<noteq> 0")
      case hit: True
      with True show ?thesis
        by (subst current_threshold_loop.simps) (simp add: d n first_match_def)
    next
      case miss: False
      then have "current_threshold_loop chip min_cpu i =
                   current_threshold_loop chip min_cpu (Suc i)"
        using True by (subst current_threshold_loop.simps) auto
      also have "\<dots> =
          (case first_match (internal_soc chip) (drop (Suc i) ?tab) of
             None \<Rightarrow> (chip, min_cpu)
           | Some (bound, threshold) \<Rightarrow> (chip\<lparr>current_threshold := threshold\<rparr>, 1))"
        using "1.IH" True miss "1.prems" by blast
      finally show ?thesis
        using miss by (auto simp add: d n first_match_def)
    qed
  qed
qed

lemma set_current_threshold_enabled:
  assumes "set_current_threshold (pdata chip) = Some callback"
      and "current_threshold_num (pdata chip) \<noteq> 0"
      and "current_normal (pdata chip) \<noteq> 0"
      and "nat (current_threshold_num (pdata chip)) \<le> length (current_threshold_soc (pdata chip))"
      and "nat (current_threshold_num (pdata chip)) \<le> length (pdata_current_threshold (pdata chip))"
  shows "current_threshold (max17048_set_current_threshold chip) =
           selected_threshold (internal_soc chip) (current_threshold_table (pdata chip))
             (current_normal (pdata chip))"
    and "threshold_calls (max17048_set_current_threshold chip) =
           (if selected_threshold (internal_soc chip) (current_threshold_table (pdata chip))
                 (current_normal (pdata chip)) \<noteq> lasttime_current_threshold chip
            then threshold_calls chip @
                   [(selected_threshold (internal_soc chip) (current_threshold_table (pdata chip))
                       (current_normal (pdata chip)),
                     if first_match (internal_soc chip) (current_threshold_table (pdata chip)) = None
                     then 2 else 1)]
            else threshold_calls chip)"
proof -
  let ?c = "chip\<lparr>current_threshold := current_normal (pdata chip)\<rparr>"
  have loop: "current_threshold_loop ?c 2 0 =
     (case first_match (internal_soc ?c) (drop 0 (current_threshold_table (pdata ?c))) of
        None \<Rightarrow> (?c, 2)
      | Some (bound, threshold) \<Rightarrow> (?c\<lparr>current_threshold := threshold\<rparr>, 1))"
    using assms(4,5) by (intro current_threshold_loop_first_match) simp_all
  show "current_threshold (max17048_set_current_threshold chip) =
           selected_threshold (internal_soc chip) (current_threshold_table (pdata chip))
             (current_normal (pdata chip))"
    using assms(1,2,3) loop
    by (auto simp: max17048_set_current_threshold_def selected_threshold_def Let_def
        split: option.splits)
  show "threshold_calls (max17048_set_current_threshold chip) =
           (if selected_threshold (internal_soc chip) (current_threshold_table (pdata chip))
                 (current_normal (pdata chip)) \<noteq> lasttime_current_threshold chip
            then threshold_calls chip @
                   [(selected_threshold (internal_soc chip) (current_threshold_table (pdata chip))
                       (current_normal (pdata chip)),
                     if first_match (internal_soc chip) (current_threshold_table (pdata chip)) = None
                     then 2 else 1)]
            else threshold_calls chip)"
    using assms(1,2,3) loop
    by (auto simp: max17048_set_current_threshold_def selected_threshold_def Let_def
        split: option.splits)
qed

text \<open>
  C5, as the driver has it. The policy runs only when the callback is present, the entry
  count is nonzero and the normal threshold is nonzero. Then, for every
  \<^verbatim>\<open>internal_soc\<close> and every table (ascending or not) whose entry count lies within
  the arrays, \<^verbatim>\<open>current_threshold\<close> becomes the threshold of the first entry whose SOC
  bound is at least \<^verbatim>\<open>internal_soc\<close> and whose threshold is nonzero, or the normal
  threshold when no entry matches, and the callback is invoked once, with that threshold,
  exactly when it differs from \<^verbatim>\<open>lasttime_current_threshold\<close>. When one of the three
  is missing, nothing is selected and the callback is not invoked: the state is unchanged.
\<close>

theorem current_threshold_selection:
  "(set_current_threshold (pdata chip) \<noteq> None
      \<and> current_threshold_num (pdata chip) \<noteq> 0
      \<and> current_normal (pdata chip) \<noteq> 0
      \<and> nat (current_threshold_num (pdata chip)) \<le> length (current_threshold_soc (pdata chip))
      \<and> nat (current_threshold_num (pdata chip)) \<le> length (pdata_current_threshold (pdata chip))
    \<longrightarrow>
      current_threshold (max17048_set_current_threshold chip) =
        selected_threshold (internal_soc chip) (current_threshold_table (pdata chip))
          (current_normal (pdata chip))
      \<and> threshold_calls (max17048_set_current_threshold chip) =
           (if selected_threshold (internal_soc chip) (current_threshold_table (pdata chip))
                 (current_normal (pdata chip)) \<noteq> lasttime_current_threshold chip
            then threshold_calls chip @
                   [(selected_threshold (internal_soc chip) (current_threshold_table (pdata chip))
                       (current_normal (pdata chip)),
                     if first_match (internal_soc chip) (current_threshold_table (pdata chip)) = None
                     then 2 else 1)]
            else threshold_calls chip))
   \<and> (set_current_threshold (pdata chip) = None
        \<or> current_threshold_num (pdata chip) = 0
        \<or> current_normal (pdata chip) = 0
      \<longrightarrow> max17048_set_current_threshold chip = chip)"
proof (intro conjI impI)
  assume a: "set_current_threshold (pdata chip) \<noteq> None
      \<and> current_threshold_num (pdata chip) \<noteq> 0
      \<and> current_normal (pdata chip) \<noteq> 0
      \<and> nat (current_threshold_num (pdata chip)) \<le> length (current_threshold_soc (pdata chip))
      \<and> nat (current_threshold_num (pdata chip)) \<le> length (pdata_current_threshold (pdata chip))"
  then obtain callback where cb: "set_current_threshold (pdata chip) = Some callback"
    by auto
  from a show "current_threshold (max17048_set_current_threshold chip) =
        selected_threshold (internal_soc chip) (current_threshold_table (pdata chip))
          (current_normal (pdata chip))"
    by (intro set_current_threshold_enabled(1) [OF cb]) simp_all
  from a show "threshold_calls (max17048_set_current_threshold chip) =
           (if selected_threshold (internal_soc chip) (current_threshold_table (pdata chip))
                 (current_normal (pdata chip)) \<noteq> lasttime_current_threshold chip
            then threshold_calls chip @
                   [(selected_threshold (internal_soc chip) (current_threshold_table (pdata chip))
                       (current_normal (pdata chip)),
                     if first_match (internal_soc chip) (current_threshold_table (pdata chip)) = None
                     then 2 else 1)]
            else threshold_calls chip)"
    by (intro set_current_threshold_enabled(2) [OF cb]) simp_all
next
  assume "set_current_threshold (pdata chip) = None
        \<or> current_threshold_num (pdata chip) = 0
        \<or> current_normal (pdata chip) = 0"
  then show "max17048_set_current_threshold chip = chip"
    by (auto simp: max17048_set_current_threshold_def split: option.splits)
qed

text \<open>
  The theorem on the table \<open>[(30, 500), (60, 900)]\<close> with normal threshold 1200: at
  \<^verbatim>\<open>internal_soc\<close> 45 the selection is 900 and the callback is invoked with it; at 70
  no entry matches and the selection is the normal threshold.
\<close>

theorem current_threshold_selection_witness:
  "set_current_threshold (pdata (chip_alloc board_pdata)) \<noteq> None
   \<and> current_threshold_num (pdata (chip_alloc board_pdata)) \<noteq> 0
   \<and> current_normal (pdata (chip_alloc board_pdata)) \<noteq> 0
   \<and> current_threshold_table (pdata (chip_alloc board_pdata)) = [(30, 500), (60, 900)]
   \<and> current_threshold
        (max17048_set_current_threshold ((chip_alloc board_pdata)\<lparr>internal_soc := 45\<rparr>)) = 900
   \<and> threshold_calls
        (max17048_set_current_threshold ((chip_alloc board_pdata)\<lparr>internal_soc := 45\<rparr>))
       = [(900, 1)]
   \<and> current_threshold
        (max17048_set_current_threshold ((chip_alloc board_pdata)\<lparr>internal_soc := 70\<rparr>)) = 1200
   \<and> threshold_calls
        (max17048_set_current_threshold ((chip_alloc board_pdata)\<lparr>internal_soc := 70\<rparr>))
       = [(1200, 2)]"
proof -
  have g: "set_current_threshold (pdata (chip_alloc board_pdata)) = Some (\<lambda>threshold min_cpu. 0)"
    "current_threshold_num (pdata (chip_alloc board_pdata)) = 2"
    "current_normal (pdata (chip_alloc board_pdata)) = 1200"
    "length (current_threshold_soc (pdata (chip_alloc board_pdata))) = 2"
    "length (pdata_current_threshold (pdata (chip_alloc board_pdata))) = 2"
    "lasttime_current_threshold (chip_alloc board_pdata) = 0"
    "threshold_calls (chip_alloc board_pdata) = []"
    by (simp_all add: sample_defs)
  have t: "current_threshold_table (pdata (chip_alloc board_pdata)) = [(30, 500), (60, 900)]"
    by (simp add: current_threshold_table_def sample_defs)
  have s: "first_match 45 [(30, 500), (60, 900)] = Some (60, 900)"
          "first_match 70 [(30, 500), (60, 900)] = None"
          "selected_threshold 45 [(30, 500), (60, 900)] 1200 = 900"
          "selected_threshold 70 [(30, 500), (60, 900)] 1200 = 1200"
    by (simp_all add: selected_threshold_def first_match_def)
  show ?thesis
    using current_threshold_selection [of "(chip_alloc board_pdata)\<lparr>internal_soc := 45\<rparr>"]
      current_threshold_selection [of "(chip_alloc board_pdata)\<lparr>internal_soc := 70\<rparr>"]
    by (simp add: g t s)
qed

text \<open>
  That the selection is made for every table does not hold when the normal threshold
  is not configured (zero): with the callback present, the table
  \<open>[(30, 500), (60, 900)]\<close> and \<^verbatim>\<open>internal_soc\<close> 45, the rule selects 900, but the
  driver leaves \<^verbatim>\<open>current_threshold\<close> at 0 and does not invoke the callback.
\<close>

theorem current_threshold_counterexample:
  "set_current_threshold (board_pdata\<lparr>current_normal := 0\<rparr>) \<noteq> None
   \<and> current_threshold_table (board_pdata\<lparr>current_normal := 0\<rparr>) = [(30, 500), (60, 900)]
   \<and> selected_threshold 45 (current_threshold_table (board_pdata\<lparr>current_normal := 0\<rparr>))
         (current_normal (board_pdata\<lparr>current_normal := 0\<rparr>)) = 900
   \<and> current_threshold (max17048_set_current_threshold
         ((chip_alloc (board_pdata\<lparr>current_normal := 0\<rparr>))\<lparr>internal_soc := 45\<rparr>)) = 0
   \<and> threshold_calls (max17048_set_current_threshold
         ((chip_alloc (board_pdata\<lparr>current_normal := 0\<rparr>))\<lparr>internal_soc := 45\<rparr>)) = []"
  by (simp add: max17048_set_current_threshold_def current_threshold_table_def
      selected_threshold_def first_match_def sample_defs)

section \<open>Properties of the thermal compensation\<close>

lemma c_sdiv_abs_le: "\<bar>c_sdiv a b\<bar> \<le> \<bar>a\<bar>"
proof -
  have q: "0 \<le> \<bar>a\<bar> div \<bar>b\<bar>"
    by (simp add: pos_imp_zdiv_nonneg_iff div_int_pos_iff)
  have "\<bar>c_sdiv a b\<bar> = \<bar>sgn a\<bar> * \<bar>sgn b\<bar> * (\<bar>a\<bar> div \<bar>b\<bar>)"
    using q by (simp add: c_sdiv_def abs_mult)
  also have "\<dots> \<le> \<bar>a\<bar> div \<bar>b\<bar>"
    by (cases "a = 0"; cases "b = 0") (simp_all add: abs_sgn_eq)
  also have "\<dots> \<le> \<bar>a\<bar>"
  proof (cases "b = 0")
    case True
    then show ?thesis by simp
  next
    case False
    then have "1 \<le> \<bar>b\<bar>" by simp
    then have "\<bar>a\<bar> div \<bar>b\<bar> \<le> \<bar>a\<bar> div 1"
      by (intro zdiv_mono2) simp_all
    then show ?thesis by simp
  qed
  finally show ?thesis .
qed

lemma sint_long_to_s64: "sint (scast (w :: s32) :: s64) = sint w"
  by (simp add: sint_up_scast is_up)

lemma sint_s32_range: "- 2147483648 \<le> sint (w :: s32) \<and> sint w < 2147483648"
  using sint_range_size [of w] by (simp add: word_size)

lemma scaled_product_bound:
  fixes t c :: int
  assumes "- 2147483648 \<le> t" "t < 2147483648" "- 2147483648 \<le> c" "c < 2147483648"
  shows "\<bar>(t - 20000) * c\<bar> \<le> 2147503648 * 2147483648"
proof -
  have "\<bar>t - 20000\<bar> \<le> 2147503648"
    using assms by simp
  moreover have "\<bar>c\<bar> \<le> 2147483648"
    using assms by simp
  ultimately have "\<bar>t - 20000\<bar> * \<bar>c\<bar> \<le> 2147503648 * 2147483648"
    by (intro mult_mono) simp_all
  then show ?thesis
    by (simp add: abs_mult)
qed

lemma sint_s64_of_int: "\<bar>k\<bar> \<le> 2147503648 * 2147483648 \<Longrightarrow> sint (word_of_int k :: s64) = k"
  by (simp add: sint_sbintrunc' signed_take_bit_int_eq_self)

text \<open>The 64-bit product and quotient of lines 399-404 never wrap.\<close>

lemma div64_scaled:
  "sint (div64_s64 (((scast (temp :: s32) :: s64) - 20000) * scast (co :: s32)) 1000000)
     = c_sdiv ((sint temp - 20000) * sint co) 1000000"
proof -
  let ?t = "sint temp" and ?c = "sint co"
  have r: "- 2147483648 \<le> ?t" "?t < 2147483648" "- 2147483648 \<le> ?c" "?c < 2147483648"
    using sint_s32_range [of temp] sint_s32_range [of co] by simp_all
  have a: "sint ((scast temp :: s64) - 20000) = ?t - 20000"
    using r by (simp add: sint_word_ariths sint_long_to_s64 signed_take_bit_int_eq_self)
  have pb: "\<bar>(?t - 20000) * ?c\<bar> \<le> 2147503648 * 2147483648"
    using r by (rule scaled_product_bound)
  have b: "sint (((scast temp :: s64) - 20000) * scast co) = (?t - 20000) * ?c"
    using pb by (simp only: sint_word_mult a sint_long_to_s64)
      (simp add: signed_take_bit_int_eq_self)
  have "\<bar>c_sdiv ((?t - 20000) * ?c) 1000000\<bar> \<le> 2147503648 * 2147483648"
    using c_sdiv_abs_le [of "(?t - 20000) * ?c" 1000000] pb by linarith
  then show ?thesis
    by (simp add: div64_s64_def b sint_s64_of_int)
qed

lemma sint_cast_int:
  assumes "fits_int (sint (w :: s64))"
  shows "sint (scast w :: s32) = sint w"
proof -
  have "sint (scast w :: s32) = signed_take_bit 31 (sint w)"
    by (simp only: scast_eq sint_sbintrunc') simp
  also have "\<dots> = sint w"
    using assms by (simp add: fits_int_def signed_take_bit_int_eq_self)
  finally show ?thesis .
qed

lemma sint_add_int:
  assumes "fits_int (sint (a :: s32) + sint b)"
  shows "sint (a + b) = sint a + sint b"
  using assms by (simp add: fits_int_def sint_word_ariths signed_take_bit_int_eq_self)

lemma new_rcomp_of_range:
  "0 \<le> sint (new_rcomp_of mdata temp) \<and> sint (new_rcomp_of mdata temp) \<le> 255"
  by (simp add: new_rcomp_of_def Let_def)

lemma new_rcomp_of_exact:
  assumes d: "fits_int (rcomp_delta (sint temp) (sint (t_co_hot mdata)) (sint (t_co_cold mdata)))"
      and s: "fits_int (sint (rcomp mdata)
                + rcomp_delta (sint temp) (sint (t_co_hot mdata)) (sint (t_co_cold mdata)))"
  shows "sint (new_rcomp_of mdata temp) =
           rcomp_spec (sint (rcomp mdata)) (sint temp) (sint (t_co_hot mdata))
             (sint (t_co_cold mdata))"
proof -
  consider (hot) "sint temp > 20000" | (cold) "sint temp < 20000" | (eq) "sint temp = 20000"
    by linarith
  then show ?thesis
  proof cases
    case hot
    let ?q = "div64_s64 (((scast temp :: s64) - 20000) * scast (t_co_hot mdata)) 1000000"
    let ?d = "c_sdiv ((sint temp - 20000) * sint (t_co_hot mdata)) 1000000"
    have q: "sint ?q = ?d"
      by (rule div64_scaled)
    have n: "sint (scast ?q :: s32) = ?d"
      using d hot q sint_cast_int [of ?q] by (simp add: rcomp_delta_def)
    have "sint (rcomp mdata + scast ?q) = sint (rcomp mdata) + ?d"
      using s hot n sint_add_int [of "rcomp mdata" "scast ?q"] by (simp add: rcomp_delta_def)
    then show ?thesis
      using hot by (simp add: new_rcomp_of_def rcomp_spec_def rcomp_delta_def clamp_def Let_def)
  next
    case cold
    let ?q = "div64_s64 (((scast temp :: s64) - 20000) * scast (t_co_cold mdata)) 1000000"
    let ?d = "c_sdiv ((sint temp - 20000) * sint (t_co_cold mdata)) 1000000"
    have q: "sint ?q = ?d"
      by (rule div64_scaled)
    have n: "sint (scast ?q :: s32) = ?d"
      using d cold q sint_cast_int [of ?q] by (simp add: rcomp_delta_def)
    have "sint (rcomp mdata + scast ?q) = sint (rcomp mdata) + ?d"
      using s cold n sint_add_int [of "rcomp mdata" "scast ?q"] by (simp add: rcomp_delta_def)
    then show ?thesis
      using cold by (simp add: new_rcomp_of_def rcomp_spec_def rcomp_delta_def clamp_def Let_def)
  next
    case eq
    then show ?thesis
      by (simp add: new_rcomp_of_def rcomp_spec_def rcomp_delta_def clamp_def Let_def)
  qed
qed

subsection \<open>The word written to the config register\<close>

lemma int_255_mask: "(255 :: int) = mask 8"
  by (simp add: mask_eq_exp_minus_1)

lemma config_word_low_byte:
  fixes v n :: int
  shows "take_bit 8 (word_of_int ((v AND 0xFF) OR push_bit 8 n) :: u16) = take_bit 8 (word_of_int v)"
  by (rule bit_word_eqI) (auto simp add: bit_simps int_255_mask)

lemma config_word_high_byte:
  fixes v n :: int
  assumes "0 \<le> n" "n \<le> 255"
  shows "uint (drop_bit 8 (word_of_int ((v AND 0xFF) OR push_bit 8 n) :: u16)) = n"
proof -
  have n: "take_bit 8 n = n"
    using assms by (simp add: take_bit_int_eq_self)
  have b: "k < 8" if "bit n k" for k
    using that n by (metis bit_take_bit_iff)
  have "drop_bit 8 (word_of_int ((v AND 0xFF) OR push_bit 8 n) :: u16) = word_of_int n"
    by (rule bit_word_eqI) (auto simp add: bit_simps int_255_mask dest: b)
  moreover have "uint (word_of_int n :: u16) = n"
    using assms by (simp add: uint_word_of_int take_bit_int_eq_self)
  ultimately show ?thesis
    by simp
qed

lemma update_rcomp_writes:
  assumes live: "shutdown_complete chip = 0"
      and ok: "0 \<le> bus (trace chip @ [XReadWord 0x0C])"
  shows "\<exists>w. trace (max17048_update_rcomp bus chip temp) =
               trace chip @ [XReadWord 0x0C, XWriteWord 0x0C (swab16 w)]
            \<and> uint (drop_bit 8 w) = sint (new_rcomp_of (model_data (pdata chip)) temp)
            \<and> take_bit 8 w = take_bit 8 (swab16 (word_of_int (bus (trace chip @ [XReadWord 0x0C]))))"
proof -
  define r where "r = bus (trace chip @ [XReadWord 0x0C])"
  define x :: u16 where "x = swab16 (word_of_int (r AND 0x0000ffff))"
  define n where "n = sint (new_rcomp_of (model_data (pdata chip)) temp)"
  define w :: u16 where "w = word_of_int ((uint x AND 0xFF) OR push_bit 8 n)"
  have rd: "max17048_read_word bus chip MAX17048_CONFIG =
              (uint x, chip\<lparr>mutex := False, trace := trace chip @ [XReadWord 0x0C]\<rparr>)"
    using live ok
    by (simp add: max17048_read_word_eq Let_def MAX17048_CONFIG_def r_def x_def)
  have tr: "trace (max17048_update_rcomp bus chip temp) =
              trace chip @ [XReadWord 0x0C, XWriteWord 0x0C (swab16 w)]"
    unfolding max17048_update_rcomp_def rd using live
    by (simp add: Let_def max17048_write_word_eq MAX17048_CONFIG_def w_def n_def)
  have nr: "0 \<le> n" "n \<le> 255"
    using new_rcomp_of_range [of "model_data (pdata chip)" temp] by (simp_all add: n_def)
  have hi: "uint (drop_bit 8 w) = n"
    unfolding w_def using nr by (rule config_word_high_byte)
  have m: "(65535 :: int) = mask 16"
    by (simp add: mask_eq_exp_minus_1)
  have "(word_of_int (r AND 0x0000ffff) :: u16) = word_of_int r"
    unfolding m by (intro bit_word_eqI) (auto simp add: bit_simps)
  then have xr: "x = swab16 (word_of_int r)"
    by (simp add: x_def)
  have lo: "take_bit 8 w = take_bit 8 x"
    unfolding w_def by (simp add: config_word_low_byte)
  show ?thesis
    using tr hi lo by (intro exI [of _ w]) (simp add: n_def xr r_def)
qed

text \<open>
  C6, as the driver has it. For every temperature, base value and coefficients the value
  the thermal compensator computes lies in \<open>[0, 255]\<close>. It is
  \<open>clamp (rcompBase + delta) 0 255\<close>, with \<open>delta\<close> the truncated quotient of the
  specification, whenever \<open>delta\<close> and \<open>rcompBase + delta\<close> are representable in a C
  \<^verbatim>\<open>int\<close>: the driver narrows the 64-bit quotient with \<^verbatim>\<open>(int)\<close> and adds in
  \<^verbatim>\<open>int\<close>. When the transport is not fenced and the read of the config register
  succeeds, the compensator writes that register once, with the computed value as the
  upper byte and the lower byte as read.
\<close>

theorem rcomp_byte_clamped:
  "0 \<le> sint (new_rcomp_of (model_data (pdata chip)) temp)
   \<and> sint (new_rcomp_of (model_data (pdata chip)) temp) \<le> 255
   \<and> (fits_int (rcomp_delta (sint temp) (sint (t_co_hot (model_data (pdata chip))))
                    (sint (t_co_cold (model_data (pdata chip)))))
        \<and> fits_int (sint (rcomp (model_data (pdata chip)))
                     + rcomp_delta (sint temp) (sint (t_co_hot (model_data (pdata chip))))
                         (sint (t_co_cold (model_data (pdata chip)))))
        \<longrightarrow> sint (new_rcomp_of (model_data (pdata chip)) temp) =
              rcomp_spec (sint (rcomp (model_data (pdata chip)))) (sint temp)
                (sint (t_co_hot (model_data (pdata chip))))
                (sint (t_co_cold (model_data (pdata chip)))))
   \<and> (shutdown_complete chip = 0 \<and> 0 \<le> bus (trace chip @ [XReadWord 0x0C])
        \<longrightarrow> (\<exists>w. trace (max17048_update_rcomp bus chip temp) =
                    trace chip @ [XReadWord 0x0C, XWriteWord 0x0C (swab16 w)]
                  \<and> uint (drop_bit 8 w) = sint (new_rcomp_of (model_data (pdata chip)) temp)
                  \<and> take_bit 8 w =
                      take_bit 8 (swab16 (word_of_int (bus (trace chip @ [XReadWord 0x0C]))))))"
proof (intro conjI impI)
  show "0 \<le> sint (new_rcomp_of (model_data (pdata chip)) temp)"
    and "sint (new_rcomp_of (model_data (pdata chip)) temp) \<le> 255"
    using new_rcomp_of_range [of "model_data (pdata chip)" temp] by simp_all
next
  assume "fits_int (rcomp_delta (sint temp) (sint (t_co_hot (model_data (pdata chip))))
                    (sint (t_co_cold (model_data (pdata chip)))))
        \<and> fits_int (sint (rcomp (model_data (pdata chip)))
                     + rcomp_delta (sint temp) (sint (t_co_hot (model_data (pdata chip))))
                         (sint (t_co_cold (model_data (pdata chip)))))"
  then show "sint (new_rcomp_of (model_data (pdata chip)) temp) =
              rcomp_spec (sint (rcomp (model_data (pdata chip)))) (sint temp)
                (sint (t_co_hot (model_data (pdata chip))))
                (sint (t_co_cold (model_data (pdata chip))))"
    by (intro new_rcomp_of_exact) simp_all
next
  assume "shutdown_complete chip = 0 \<and> 0 \<le> bus (trace chip @ [XReadWord 0x0C])"
  then show "\<exists>w. trace (max17048_update_rcomp bus chip temp) =
                    trace chip @ [XReadWord 0x0C, XWriteWord 0x0C (swab16 w)]
                  \<and> uint (drop_bit 8 w) = sint (new_rcomp_of (model_data (pdata chip)) temp)
                  \<and> take_bit 8 w =
                      take_bit 8 (swab16 (word_of_int (bus (trace chip @ [XReadWord 0x0C]))))"
    by (intro update_rcomp_writes) simp_all
qed

text \<open>
  The theorem on the board's model (base 105, hot coefficient \<open>-1125\<close>) at 30 degrees:
  \<open>delta = -11\<close>, the computed value is 94, and on a bus whose config register reads
  \<open>0x3412\<close> the compensator writes a word with upper byte 94.
\<close>

theorem rcomp_byte_clamped_witness:
  "fits_int (rcomp_delta 30000 (- 1125) (- 6350))
   \<and> fits_int (105 + rcomp_delta 30000 (- 1125) (- 6350))
   \<and> rcomp_delta 30000 (- 1125) (- 6350) = - 11
   \<and> sint (new_rcomp_of board_model 30000) = 94
   \<and> shutdown_complete (chip_alloc board_pdata) = 0
   \<and> 0 \<le> soc_bus 0 (trace (chip_alloc board_pdata) @ [XReadWord 0x0C])
   \<and> (\<exists>w. trace (max17048_update_rcomp (soc_bus 0) (chip_alloc board_pdata) 30000) =
              [XReadWord 0x0C, XWriteWord 0x0C (swab16 w)]
            \<and> uint (drop_bit 8 w) = 94)"
proof -
  have m: "model_data (pdata (chip_alloc board_pdata)) = board_model"
    and live: "shutdown_complete (chip_alloc board_pdata) = 0"
    and t0: "trace (chip_alloc board_pdata) = []"
    by (simp_all add: sample_defs)
  have v: "sint (rcomp board_model) = 105" "sint (t_co_hot board_model) = - 1125"
    "sint (t_co_cold board_model) = - 6350" "sint (30000 :: s32) = 30000"
    by (simp_all add: board_model_def)
  have dl: "rcomp_delta 30000 (- 1125) (- 6350) = - 11"
    by (simp add: rcomp_delta_def c_sdiv_def)
  have f: "fits_int (- 11)" "fits_int 94"
    by (simp_all add: fits_int_def)
  have sp: "rcomp_spec 105 30000 (- 1125) (- 6350) = 94"
    by (simp add: rcomp_spec_def dl clamp_def)
  have ok: "0 \<le> soc_bus 0 ([] @ [XReadWord 0x0C])"
    by (simp add: sample_defs)
  show ?thesis
    using rcomp_byte_clamped [of "chip_alloc board_pdata" 30000 "soc_bus 0"] f ok
    by (auto simp add: m live t0 v dl sp)
qed

text \<open>
  That the written byte is the clamped sum for every input does not hold where the
  quotient leaves the range of \<^verbatim>\<open>int\<close>: at 2020 degrees with a hot coefficient of
  \<open>2^30\<close> the quotient is \<open>2^31\<close>, which \<^verbatim>\<open>(int)\<close> turns into \<open>-2^31\<close>; the driver
  computes 0 where the clamped sum is 255.
\<close>

theorem rcomp_byte_counterexample:
  "sint (new_rcomp_of (board_model\<lparr>t_co_hot := 0x40000000\<rparr>) 2020000) = 0
   \<and> rcomp_spec (sint (rcomp (board_model\<lparr>t_co_hot := 0x40000000\<rparr>)))
        (sint (2020000 :: s32))
        (sint (t_co_hot (board_model\<lparr>t_co_hot := 0x40000000\<rparr>)))
        (sint (t_co_cold (board_model\<lparr>t_co_hot := 0x40000000\<rparr>))) = 255"
  by (simp add: new_rcomp_of_def board_model_def Let_def div64_s64_def c_sdiv_def
      rcomp_spec_def rcomp_delta_def clamp_def)

section \<open>Properties of the initialization\<close>

text \<open>
  C1, as the driver behaves. \<^verbatim>\<open>max17048_initialize\<close> stores every result in a
  \<^verbatim>\<open>uint8_t\<close>, so none of its tests \<^verbatim>\<open>ret < 0\<close> succeeds: on every bus it runs
  the unlock write, the model load, the config, voltage-alert and voltage-reset writes,
  the lock write and the delay, each on the state the step before left, and returns 0.
  On a bus where every transaction fails with \<open>-EIO\<close> all six writes are issued all
  the same (the model load stops at its first read) and the result is still 0.
\<close>

theorem initialize_ignores_write_errors:
  "max17048_initialize bus chip =
     (0, mdelay 200
           (snd (max17048_write_word bus
             (snd (max17048_write_word bus
               (snd (max17048_write_word bus
                 (snd (max17048_write_word bus
                   (snd (max17048_load_model_data bus
                     (snd (max17048_write_word bus chip MAX17048_UNLOCK
                            MAX17048_UNLOCK_VALUE))))
                   MAX17048_CONFIG (initialize_config (model_data (pdata chip)))))
                 MAX17048_VALRT (valert (model_data (pdata chip)))))
               MAX17048_VRESET (vreset (model_data (pdata chip)))))
             MAX17048_UNLOCK 0)))
   \<and> fst (max17048_write_word failing_bus (chip_alloc board_pdata) MAX17048_UNLOCK
            MAX17048_UNLOCK_VALUE) = - 5
   \<and> fst (max17048_initialize failing_bus (chip_alloc board_pdata)) = 0
   \<and> trace (snd (max17048_initialize failing_bus (chip_alloc board_pdata))) =
       [XWriteWord 0x3E 0x574A, XReadWord 0x0E, XWriteWord 0x0C 0x6069, XWriteWord 0x14 0xAAD4,
        XWriteWord 0x18 0x963C, XWriteWord 0x3E 0, XDelay 200]"
proof (intro conjI)
  show eq: "max17048_initialize bus chip =
     (0, mdelay 200
           (snd (max17048_write_word bus
             (snd (max17048_write_word bus
               (snd (max17048_write_word bus
                 (snd (max17048_write_word bus
                   (snd (max17048_load_model_data bus
                     (snd (max17048_write_word bus chip MAX17048_UNLOCK
                            MAX17048_UNLOCK_VALUE))))
                   MAX17048_CONFIG (initialize_config (model_data (pdata chip)))))
                 MAX17048_VALRT (valert (model_data (pdata chip)))))
               MAX17048_VRESET (vreset (model_data (pdata chip)))))
             MAX17048_UNLOCK 0)))" for bus chip
    by (simp add: max17048_initialize_def Let_def split_beta)
  show "fst (max17048_write_word failing_bus (chip_alloc board_pdata) MAX17048_UNLOCK
            MAX17048_UNLOCK_VALUE) = - 5"
    by (simp add: max17048_write_word_eq sample_defs)
  show "fst (max17048_initialize failing_bus (chip_alloc board_pdata)) = 0"
    by (simp add: eq)
  let ?c0 = "chip_alloc board_pdata"
  let ?c1 = "?c0\<lparr>trace := [XWriteWord 0x3E 0x574A]\<rparr>"
  let ?c2 = "?c0\<lparr>trace := [XWriteWord 0x3E 0x574A, XReadWord 0x0E]\<rparr>"
  have 1: "snd (max17048_write_word failing_bus ?c0 MAX17048_UNLOCK MAX17048_UNLOCK_VALUE) = ?c1"
    by (simp add: max17048_write_word_eq sample_defs reg_defs swab16_def)
  have 2: "snd (max17048_load_model_data failing_bus ?c1) = ?c2"
    by (simp add: max17048_load_model_data_def max17048_read_word_eq sample_defs reg_defs
        Let_def)
  have m: "model_data (pdata ?c0) = board_model"
    by (simp add: sample_defs)
  have c: "initialize_config board_model = 0x6960"
    by (simp add: initialize_config_def board_model_def Let_def)
  show "trace (snd (max17048_initialize failing_bus ?c0)) =
       [XWriteWord 0x3E 0x574A, XReadWord 0x0E, XWriteWord 0x0C 0x6069, XWriteWord 0x14 0xAAD4,
        XWriteWord 0x18 0x963C, XWriteWord 0x3E 0, XDelay 200]"
    by (simp only: eq 1 2 m c snd_conv)
       (simp add: max17048_write_word_eq mdelay_def sample_defs reg_defs swab16_def)
qed

text \<open>
  The model load on a working bus whose charge-state register reads \<open>0x5000\<close> after the
  load, outside the window \<open>[240, 242]\<close> of the board's model, evaluated step by step
  from the state the unlock write leaves.
\<close>

lemma load_model_data_out_of_window:
  "max17048_load_model_data (soc_bus 0x0050)
     ((chip_alloc board_pdata)\<lparr>trace := [XWriteWord 0x3E 0x574A]\<rparr>) =
     (20480,
      (chip_alloc board_pdata)\<lparr>trace :=
        [XWriteWord 0x3E 0x574A, XReadWord 0x0E,
         XWriteBlock 0x40 (replicate 16 0), XWriteBlock 0x50 (replicate 16 0),
         XWriteBlock 0x60 (replicate 16 0), XWriteBlock 0x70 (replicate 16 0),
         XWriteWord 0x0E 0x90DA,
         XWriteBlock 0x80 [0, 0x80, 0, 0x80, 0, 0x80, 0, 0x80, 0, 0x80, 0, 0x80, 0, 0x80, 0, 0x80],
         XWriteBlock 0x90 [0, 0x80, 0, 0x80, 0, 0x80, 0, 0x80, 0, 0x80, 0, 0x80, 0, 0x80, 0, 0x80],
         XWriteWord 0x0A 0, XWriteWord 0x3E 0, XDelay 200, XReadWord 0x04]\<rparr>)"
proof -
  let ?bus = "soc_bus 0x0050"
  let ?c0 = "chip_alloc board_pdata"
  let ?t1 = "[XWriteWord 0x3E 0x574A, XReadWord 0x0E]"
  let ?t2 = "?t1 @ [XWriteBlock 0x40 (replicate 16 0), XWriteBlock 0x50 (replicate 16 0),
         XWriteBlock 0x60 (replicate 16 0), XWriteBlock 0x70 (replicate 16 0)]"
  let ?seg = "[0, 0x80, 0, 0x80, 0, 0x80, 0, 0x80, 0, 0x80, 0, 0x80, 0, 0x80, 0, 0x80] :: u8 list"
  let ?t3 = "?t2 @ [XWriteWord 0x0E 0x90DA]"
  let ?t4 = "?t3 @ [XWriteBlock 0x80 ?seg, XWriteBlock 0x90 ?seg]"
  let ?t5 = "?t4 @ [XWriteWord 0x0A 0]"
  let ?t6 = "?t5 @ [XWriteWord 0x3E 0]"
  let ?t7 = "?t6 @ [XDelay 200]"
  let ?t8 = "?t7 @ [XReadWord 0x04]"
  have m: "model_data (pdata (?c0\<lparr>trace := [XWriteWord 0x3E 0x574A]\<rparr>)) = board_model"
    by (simp add: sample_defs)
  have 1: "max17048_read_word ?bus (?c0\<lparr>trace := [XWriteWord 0x3E 0x574A]\<rparr>) MAX17048_OCV
             = (0x3412, ?c0\<lparr>trace := ?t1\<rparr>)"
    by (simp add: max17048_read_word_eq sample_defs reg_defs swab16_def Let_def)
  have 2: "write_model_table ?bus (?c0\<lparr>trace := ?t1\<rparr>) 0 = (True, ?c0\<lparr>trace := ?t2\<rparr>)"
    by (simp add: write_model_table.simps max17048_write_block_eq sample_defs reg_defs)
  have 3: "max17048_write_word ?bus (?c0\<lparr>trace := ?t2\<rparr>) MAX17048_OCV (ocvtest board_model)
             = (0, ?c0\<lparr>trace := ?t3\<rparr>)"
    by (simp add: max17048_write_word_eq sample_defs reg_defs swab16_def)
  have seg: "concat (replicate 8 [a, b]) = [a, b, a, b, a, b, a, b, a, b, a, b, a, b, a, b]"
    for a b :: u8
    by (simp add: eval_nat_numeral)
  have 4: "max17048_write_rcomp_seg ?bus (?c0\<lparr>trace := ?t3\<rparr>) (rcomp_seg board_model)
             = (0, ?c0\<lparr>trace := ?t4\<rparr>)"
    by (simp add: max17048_write_rcomp_seg_def max17048_write_block_eq sample_defs reg_defs
        Let_def seg)
  have 5: "max17048_write_word ?bus (?c0\<lparr>trace := ?t4\<rparr>) MAX17048_HIBRT 0
             = (0, ?c0\<lparr>trace := ?t5\<rparr>)"
    by (simp add: max17048_write_word_eq sample_defs reg_defs swab16_def)
  have 6: "max17048_write_word ?bus (?c0\<lparr>trace := ?t5\<rparr>) MAX17048_UNLOCK 0
             = (0, ?c0\<lparr>trace := ?t6\<rparr>)"
    by (simp add: max17048_write_word_eq sample_defs reg_defs swab16_def)
  have 7: "mdelay 200 (?c0\<lparr>trace := ?t6\<rparr>) = ?c0\<lparr>trace := ?t7\<rparr>"
    by (simp add: mdelay_def)
  have 8: "max17048_read_word ?bus (?c0\<lparr>trace := ?t7\<rparr>) MAX17048_SOC
             = (0x5000, ?c0\<lparr>trace := ?t8\<rparr>)"
    by (simp add: max17048_read_word_eq sample_defs reg_defs swab16_def Let_def)
  have w: "sint (soccheck_A board_model) = 240" "sint (soccheck_B board_model) = 242"
    by (simp_all add: board_model_def)
  have "max17048_load_model_data ?bus (?c0\<lparr>trace := [XWriteWord 0x3E 0x574A]\<rparr>)
          = (0x5000, ?c0\<lparr>trace := ?t8\<rparr>)"
    by (simp only: max17048_load_model_data_def Let_def m 1 2 3 4 5 6 7 8 prod.case)
       (simp add: w)
  then show ?thesis
    by simp
qed

text \<open>
  C2, as the driver behaves. With the post-load charge-state high byte \<open>0x50\<close> outside
  the window \<open>[240, 242]\<close>, \<^verbatim>\<open>max17048_load_model_data\<close> returns the register value
  it read, \<open>0x5000 = 20480\<close>, which is not negative, and \<^verbatim>\<open>max17048_initialize\<close>
  goes on to write the config, voltage-alert and voltage-reset registers, locks the
  model and returns 0.
\<close>

theorem model_verification_failure_not_reported:
  "\<not> (240 \<le> uint (drop_bit 8 (0x5000 :: u16)) \<and> uint (drop_bit 8 (0x5000 :: u16)) \<le> 242)
   \<and> fst (max17048_load_model_data (soc_bus 0x0050)
            ((chip_alloc board_pdata)\<lparr>trace := [XWriteWord 0x3E 0x574A]\<rparr>)) = 20480
   \<and> fst (max17048_initialize (soc_bus 0x0050) (chip_alloc board_pdata)) = 0
   \<and> drop 11 (trace (snd (max17048_initialize (soc_bus 0x0050) (chip_alloc board_pdata)))) =
       [XDelay 200, XReadWord 0x04, XWriteWord 0x0C 0x6069, XWriteWord 0x14 0xAAD4,
        XWriteWord 0x18 0x963C, XWriteWord 0x3E 0, XDelay 200]"
proof (intro conjI)
  show "\<not> (240 \<le> uint (drop_bit 8 (0x5000 :: u16)) \<and> uint (drop_bit 8 (0x5000 :: u16)) \<le> 242)"
    by simp
  show "fst (max17048_load_model_data (soc_bus 0x0050)
            ((chip_alloc board_pdata)\<lparr>trace := [XWriteWord 0x3E 0x574A]\<rparr>)) = 20480"
    by (simp add: load_model_data_out_of_window)
  have 1: "max17048_write_word (soc_bus 0x0050) (chip_alloc board_pdata) MAX17048_UNLOCK
             MAX17048_UNLOCK_VALUE
           = (0, (chip_alloc board_pdata)\<lparr>trace := [XWriteWord 0x3E 0x574A]\<rparr>)"
    by (simp add: max17048_write_word_eq sample_defs reg_defs swab16_def)
  have m: "model_data (pdata (chip_alloc board_pdata)) = board_model"
    by (simp add: sample_defs)
  have c: "initialize_config board_model = 0x6960"
    by (simp add: initialize_config_def board_model_def Let_def)
  have i: "max17048_initialize (soc_bus 0x0050) (chip_alloc board_pdata) =
     (0, mdelay 200
           (snd (max17048_write_word (soc_bus 0x0050)
             (snd (max17048_write_word (soc_bus 0x0050)
               (snd (max17048_write_word (soc_bus 0x0050)
                 (snd (max17048_write_word (soc_bus 0x0050)
                   (snd (max17048_load_model_data (soc_bus 0x0050)
                     (snd (max17048_write_word (soc_bus 0x0050) (chip_alloc board_pdata)
                            MAX17048_UNLOCK MAX17048_UNLOCK_VALUE))))
                   MAX17048_CONFIG (initialize_config (model_data (pdata (chip_alloc board_pdata))))))
                 MAX17048_VALRT (valert (model_data (pdata (chip_alloc board_pdata))))))
               MAX17048_VRESET (vreset (model_data (pdata (chip_alloc board_pdata))))))
             MAX17048_UNLOCK 0)))"
    by (simp add: max17048_initialize_def Let_def split_beta)
  show "fst (max17048_initialize (soc_bus 0x0050) (chip_alloc board_pdata)) = 0"
    by (simp add: i)
  show "drop 11 (trace (snd (max17048_initialize (soc_bus 0x0050) (chip_alloc board_pdata)))) =
       [XDelay 200, XReadWord 0x04, XWriteWord 0x0C 0x6069, XWriteWord 0x14 0xAAD4,
        XWriteWord 0x18 0x963C, XWriteWord 0x3E 0, XDelay 200]"
    by (simp only: i 1 load_model_data_out_of_window m c snd_conv)
       (simp add: max17048_write_word_eq mdelay_def sample_defs reg_defs swab16_def)
qed

end
